theory Spec2Isabelle
  imports Complex_Main "HOL-Library.Multiset" "HOL-Library.AList"
begin

section \<open>Values, series and exceptions\<close>

text \<open>
  The Python code works on pandas series of 64-bit floats.  A cell is modelled by its
  mathematical value: a real number (rounding is not modelled), or one of the special
  values that float division by zero produces.  \<open>NaN\<close> is also pandas' marker for a
  missing cell.
\<close>

datatype fval = Fin real | PInf | NInf | NaN

text \<open>
  A series is the list of its rows in index order; the index holds the rendered
  timestamp of the month.  Cells of an aggregated series are numbers; \<open>None\<close> in a
  nullable series is the missing marker.
\<close>

type_synonym series = "(string \<times> real) list"
type_synonym nullable_series = "(string \<times> real option) list"

text \<open>The exceptions that the modelled paths of the program raise.\<close>

datatype exn =
    KeyError string
  | ValueError string
  | FileNotFoundError string
  | IndexError
  | JSONDecodeError
  | TypeError
  | OSError
  | UnpicklingError
  | FitError
  | SystemExit int

section \<open>differencing.py\<close>

text \<open>A series without missing cells, seen as a nullable series.\<close>

definition observed :: "series \<Rightarrow> nullable_series" where
  "observed xs = map (\<lambda>(i, x). (i, Some x)) xs"

text \<open>Subtraction of two cells: missing if either side is missing.\<close>

fun cell_sub :: "real option \<Rightarrow> real option \<Rightarrow> real option" where
  "cell_sub (Some a) (Some b) = Some (a - b)"
| "cell_sub _ _ = None"

text \<open>
  \<^verbatim>\<open>series.diff()\<close>: every row keeps its index; the first row has no predecessor and
  becomes missing, every other row holds its value minus the value of the row before.
\<close>

fun diff_from :: "real option \<Rightarrow> nullable_series \<Rightarrow> nullable_series" where
  "diff_from prev [] = []"
| "diff_from prev ((i, v) # rest) = (i, cell_sub v prev) # diff_from v rest"

definition diff :: "nullable_series \<Rightarrow> nullable_series" where
  "diff s = (case s of [] \<Rightarrow> [] | (i, v) # rest \<Rightarrow> (i, None) # diff_from v rest)"

text \<open>\<^verbatim>\<open>series.dropna()\<close>: the rows whose cell is not missing, in order.\<close>

definition dropna :: "nullable_series \<Rightarrow> nullable_series" where
  "dropna s = filter (\<lambda>(i, v). v \<noteq> None) s"

text \<open>\<^verbatim>\<open>def difference_series(series): return series.diff().dropna()\<close>\<close>

definition difference_series :: "nullable_series \<Rightarrow> nullable_series" where
  "difference_series s = dropna (diff s)"

section \<open>hyperparameter_tuning.py\<close>

text \<open>
  The estimation engine (statsmodels' SARIMAX) is outside the repository.  It is a
  parameter: given the series, \<open>(p, d, q)\<close> and \<open>(P, D, Q, m)\<close> it either raises
  (\<open>None\<close>) or yields the information criteria \<open>(aic, bic)\<close> of the fitted model.
\<close>

type_synonym order3 = "int \<times> int \<times> int"
type_synonym order4 = "int \<times> int \<times> int \<times> int"
type_synonym estimator = "series \<Rightarrow> order3 \<Rightarrow> order4 \<Rightarrow> (real \<times> real) option"

text \<open>
  One row of \<^verbatim>\<open>results\<close>.  The columns \<^verbatim>\<open>p, d, q, P, D, Q\<close> of the dictionary repeat the
  components of \<^verbatim>\<open>order\<close> and \<^verbatim>\<open>seasonal_order\<close>; they are read off by \<open>params\<close>.
\<close>

record grid_row =
  order :: order3
  seasonal_order :: order4
  AIC :: real
  BIC :: real

type_synonym combo = "int \<times> int \<times> int \<times> int \<times> int \<times> int"

definition params :: "grid_row \<Rightarrow> combo" where
  "params r = (case (order r, seasonal_order r) of
     ((p, d, q), (P, D, Q, m)) \<Rightarrow> (p, d, q, P, D, Q))"

text \<open>\<^verbatim>\<open>range(r[0], r[1] + 1)\<close>: the integers from \<open>r[0]\<close> to \<open>r[1]\<close>, none if \<open>r[1] < r[0]\<close>.\<close>

definition values_of :: "int \<times> int \<Rightarrow> int list" where
  "values_of r = [fst r..snd r]"

text \<open>\<^verbatim>\<open>itertools.product\<close> of the six ranges: the last component varies fastest.\<close>

definition combinations ::
  "int \<times> int \<Rightarrow> int \<times> int \<Rightarrow> int \<times> int \<Rightarrow> int \<times> int \<Rightarrow> int \<times> int \<Rightarrow> int \<times> int \<Rightarrow> combo list" where
  "combinations p_range d_range q_range P_range D_range Q_range =
     [(p, d, q, P, D, Q).
        p \<leftarrow> values_of p_range, d \<leftarrow> values_of d_range, q \<leftarrow> values_of q_range,
        P \<leftarrow> values_of P_range, D \<leftarrow> values_of D_range, Q \<leftarrow> values_of Q_range]"

definition total_combinations ::
  "int \<times> int \<Rightarrow> int \<times> int \<Rightarrow> int \<times> int \<Rightarrow> int \<times> int \<Rightarrow> int \<times> int \<Rightarrow> int \<times> int \<Rightarrow> nat" where
  "total_combinations p_range d_range q_range P_range D_range Q_range =
     length (values_of p_range) * length (values_of d_range) * length (values_of q_range) *
     length (values_of P_range) * length (values_of D_range) * length (values_of Q_range)"

text \<open>
  The body of the loop: the \<^verbatim>\<open>try\<close> block appends a row when construction and fit
  succeed; \<^verbatim>\<open>except Exception: continue\<close> appends nothing.
\<close>

definition try_fit :: "estimator \<Rightarrow> series \<Rightarrow> int \<Rightarrow> combo \<Rightarrow> grid_row option" where
  "try_fit est s m c = (case c of (p, d, q, P, D, Q) \<Rightarrow>
     (case est s (p, d, q) (P, D, Q, m) of
        None \<Rightarrow> None
      | Some (a, b) \<Rightarrow>
          Some \<lparr>order = (p, d, q), seasonal_order = (P, D, Q, m), AIC = a, BIC = b\<rparr>))"

fun grid_loop :: "estimator \<Rightarrow> series \<Rightarrow> int \<Rightarrow> combo list \<Rightarrow> grid_row list \<Rightarrow> grid_row list" where
  "grid_loop est s m [] results = results"
| "grid_loop est s m (c # cs) results =
     (case try_fit est s m c of
        None \<Rightarrow> grid_loop est s m cs results
      | Some r \<Rightarrow> grid_loop est s m cs (results @ [r]))"

text \<open>
  \<^verbatim>\<open>pd.DataFrame(results).sort_values('AIC').reset_index(drop=True)\<close>.  A frame built from
  the empty list has no column \<^verbatim>\<open>AIC\<close>, and sorting it raises \<^verbatim>\<open>KeyError\<close>.  Otherwise the
  rows are sorted by the one key \<^verbatim>\<open>AIC\<close>, and no other column takes part in the
  comparison.  The model sorts by insertion, which leaves rows with equal keys in the
  order in which the loop appended them; pandas' default sort makes no promise about
  that order and returns equal keys in another order on some inputs.  The general
  theorems below do not depend on it.
\<close>

definition sort_values_AIC :: "grid_row list \<Rightarrow> exn + grid_row list" where
  "sort_values_AIC results =
     (if results = [] then Inl (KeyError ''AIC'') else Inr (sort_key AIC results))"

definition grid_search_sarima ::
  "estimator \<Rightarrow> series \<Rightarrow> int \<times> int \<Rightarrow> int \<times> int \<Rightarrow> int \<times> int \<Rightarrow>
   int \<times> int \<Rightarrow> int \<times> int \<Rightarrow> int \<times> int \<Rightarrow> int \<Rightarrow> exn + grid_row list" where
  "grid_search_sarima est s p_range d_range q_range P_range D_range Q_range m =
     sort_values_AIC
       (grid_loop est s m (combinations p_range d_range q_range P_range D_range Q_range) [])"

text \<open>
  The ranking that the specification describes: ascending \<^verbatim>\<open>AIC\<close>, equal \<^verbatim>\<open>AIC\<close> by
  ascending \<^verbatim>\<open>BIC\<close>, then the lexicographic order of \<open>(p, d, q, P, D, Q)\<close>.
\<close>

fun lex_le :: "int list \<Rightarrow> int list \<Rightarrow> bool" where
  "lex_le [] ys = True"
| "lex_le (x # xs) [] = False"
| "lex_le (x # xs) (y # ys) = (x < y \<or> (x = y \<and> lex_le xs ys))"

definition combo_list :: "combo \<Rightarrow> int list" where
  "combo_list c = (case c of (p, d, q, P, D, Q) \<Rightarrow> [p, d, q, P, D, Q])"

definition spec_rank_le :: "grid_row \<Rightarrow> grid_row \<Rightarrow> bool" where
  "spec_rank_le r1 r2 =
     (AIC r1 < AIC r2 \<or>
      (AIC r1 = AIC r2 \<and>
        (BIC r1 < BIC r2 \<or>
         (BIC r1 = BIC r2 \<and> lex_le (combo_list (params r1)) (combo_list (params r2))))))"

section \<open>config.py and the fitted model\<close>

definition SARIMA_ORDER :: order3 where
  "SARIMA_ORDER = (1, 1, 1)"

definition SARIMA_SEASONAL_ORDER :: order4 where
  "SARIMA_SEASONAL_ORDER = (1, 1, 1, 12)"

definition TEST_SIZE :: int where
  "TEST_SIZE = 12"

definition FORECAST_HORIZON :: nat where
  "FORECAST_HORIZON = 12"

text \<open>
  The results object of a fit.  It is bound to the series it was fitted on and to its
  orders, and exposes the information criteria.
\<close>

record fitted =
  endog :: series
  model_order :: order3
  model_seasonal_order :: order4
  aic :: real
  bic :: real

text \<open>
  What the program uses of the engine: the estimator; the point prediction for a
  position on the time line of the bound series (position \<open>0\<close> is its first month,
  positions from its length on are the months after its end); the 95 per cent interval
  for such a position; and the index label of a position.
\<close>

record engine =
  estimate :: estimator
  predict :: "fitted \<Rightarrow> nat \<Rightarrow> real"
  conf_int :: "fitted \<Rightarrow> nat \<Rightarrow> real \<times> real"
  index_label :: "fitted \<Rightarrow> nat \<Rightarrow> string"

text \<open>\<^verbatim>\<open>SARIMAX(series, order=..., seasonal_order=..., ...).fit(disp=False)\<close>\<close>

definition SARIMAX_fit :: "engine \<Rightarrow> series \<Rightarrow> order3 \<Rightarrow> order4 \<Rightarrow> exn + fitted" where
  "SARIMAX_fit eng s ord sord =
     (case estimate eng s ord sord of
        None \<Rightarrow> Inl FitError
      | Some (a, b) \<Rightarrow>
          Inr \<lparr>endog = s, model_order = ord, model_seasonal_order = sord, aic = a, bic = b\<rparr>)"

section \<open>model_evaluation.py\<close>

text \<open>
  Python's positional slices \<^verbatim>\<open>xs[:k]\<close> and \<^verbatim>\<open>xs[k:]\<close> for an integer \<open>k\<close>: a negative
  bound counts from the end, and every bound is clipped to the list.
\<close>

definition slice_bound :: "int \<Rightarrow> nat \<Rightarrow> nat" where
  "slice_bound k n = (if k < 0 then nat (max 0 (int n + k)) else min (nat k) n)"

definition slice_to :: "'a list \<Rightarrow> int \<Rightarrow> 'a list" where
  "slice_to xs k = take (slice_bound k (length xs)) xs"

definition slice_from :: "'a list \<Rightarrow> int \<Rightarrow> 'a list" where
  "slice_from xs k = drop (slice_bound k (length xs)) xs"

text \<open>
  \<^verbatim>\<open>train = monthly_sales[:-TEST_SIZE]\<close> and \<^verbatim>\<open>test = monthly_sales[-TEST_SIZE:]\<close>.
\<close>

definition train_test_split :: "series \<Rightarrow> int \<Rightarrow> series \<times> series" where
  "train_test_split monthly_sales test_size =
     (slice_to monthly_sales (- test_size), slice_from monthly_sales (- test_size))"

text \<open>
  scikit-learn's \<^verbatim>\<open>mean_absolute_error\<close> and \<^verbatim>\<open>mean_squared_error\<close>: both raise
  \<^verbatim>\<open>ValueError\<close> on inputs of different lengths and on inputs without samples.  The two
  definitions here give the exact value of each mean over the reals; the float64
  results, with the rounding of every operation, are \<open>mean_absolute_error_f64\<close> and
  \<open>mean_squared_error_f64\<close> further down.
\<close>

definition check_targets :: "real list \<Rightarrow> real list \<Rightarrow> exn option" where
  "check_targets y_true y_pred =
     (if length y_true \<noteq> length y_pred then Some (ValueError ''inconsistent numbers of samples'')
      else if y_true = [] then Some (ValueError ''0 samples'')
      else None)"

definition mean_absolute_error :: "real list \<Rightarrow> real list \<Rightarrow> exn + real" where
  "mean_absolute_error y_true y_pred =
     (case check_targets y_true y_pred of
        Some e \<Rightarrow> Inl e
      | None \<Rightarrow> Inr (sum_list (map2 (\<lambda>a p. \<bar>a - p\<bar>) y_true y_pred) / real (length y_true)))"

definition mean_squared_error :: "real list \<Rightarrow> real list \<Rightarrow> exn + real" where
  "mean_squared_error y_true y_pred =
     (case check_targets y_true y_pred of
        Some e \<Rightarrow> Inl e
      | None \<Rightarrow> Inr (sum_list (map2 (\<lambda>a p. (a - p)\<^sup>2) y_true y_pred) / real (length y_true)))"

text \<open>
  Element-wise float arithmetic of pandas.  Division by zero does not raise: a nonzero
  numerator gives an infinity, zero by zero gives \<open>NaN\<close>.
\<close>

definition cell_div :: "real \<Rightarrow> real \<Rightarrow> fval" where
  "cell_div a b =
     (if b \<noteq> 0 then Fin (a / b)
      else if a = 0 then NaN
      else if 0 < a then PInf else NInf)"

fun fabs :: "fval \<Rightarrow> fval" where
  "fabs (Fin a) = Fin \<bar>a\<bar>"
| "fabs PInf = PInf"
| "fabs NInf = PInf"
| "fabs NaN = NaN"

fun fadd :: "fval \<Rightarrow> fval \<Rightarrow> fval" where
  "fadd NaN _ = NaN"
| "fadd _ NaN = NaN"
| "fadd (Fin a) (Fin b) = Fin (a + b)"
| "fadd PInf NInf = NaN"
| "fadd NInf PInf = NaN"
| "fadd PInf _ = PInf"
| "fadd _ PInf = PInf"
| "fadd NInf _ = NInf"
| "fadd _ NInf = NInf"

fun fscale :: "fval \<Rightarrow> real \<Rightarrow> fval" where
  "fscale (Fin a) c = Fin (a * c)"
| "fscale NaN c = NaN"
| "fscale PInf c = (if 0 < c then PInf else if c < 0 then NInf else NaN)"
| "fscale NInf c = (if 0 < c then NInf else if c < 0 then PInf else NaN)"

text \<open>
  \<^verbatim>\<open>np.mean\<close> of a pandas series is the series' own \<^verbatim>\<open>mean\<close>, which skips \<open>NaN\<close> cells;
  the mean of no cells is \<open>NaN\<close>.
\<close>

definition series_mean :: "fval list \<Rightarrow> fval" where
  "series_mean cells =
     (let kept = filter (\<lambda>c. c \<noteq> NaN) cells
      in if kept = [] then NaN
         else fscale (foldl fadd (Fin 0) kept) (1 / real (length kept)))"

text \<open>
  \<^verbatim>\<open>np.mean(np.abs((test - predictions) / test)) * 100\<close>; \<open>ape_cells\<close> is the series
  \<^verbatim>\<open>np.abs((test - predictions) / test)\<close>.
\<close>

definition ape_cells :: "real list \<Rightarrow> real list \<Rightarrow> fval list" where
  "ape_cells test predictions = map fabs (map2 (\<lambda>a p. cell_div (a - p) a) test predictions)"

definition mape_expr :: "real list \<Rightarrow> real list \<Rightarrow> fval" where
  "mape_expr test predictions = fscale (series_mean (ape_cells test predictions)) 100"

text \<open>The comparison \<^verbatim>\<open>x >= 0\<close> on a float: false for \<open>NaN\<close>.\<close>

fun non_negative :: "fval \<Rightarrow> bool" where
  "non_negative (Fin a) = (0 \<le> a)"
| "non_negative PInf = True"
| "non_negative NInf = False"
| "non_negative NaN = False"

record metrics =
  mae :: real
  rmse :: real
  mape :: fval

text \<open>
  The script from the split to the metrics (up to the line that prints them), for the
  aggregated series and the configured test size.  The fit may raise; \<^verbatim>\<open>test.index[0]\<close>
  raises on an empty test window; the predictions are the engine's point predictions
  for exactly the months of the test window.  The script has no check of its own.
\<close>

definition evaluation_metrics :: "real list \<Rightarrow> real list \<Rightarrow> exn + metrics" where
  "evaluation_metrics actual predictions =
     (case mean_absolute_error actual predictions of
        Inl e \<Rightarrow> Inl e
      | Inr mae_value \<Rightarrow>
          (case mean_squared_error actual predictions of
             Inl e \<Rightarrow> Inl e
           | Inr mse \<Rightarrow>
               Inr \<lparr>mae = mae_value, rmse = sqrt mse, mape = mape_expr actual predictions\<rparr>))"

definition model_evaluation :: "engine \<Rightarrow> series \<Rightarrow> int \<Rightarrow> exn + metrics" where
  "model_evaluation eng monthly_sales test_size =
     (let train = fst (train_test_split monthly_sales test_size);
          test = snd (train_test_split monthly_sales test_size)
      in case SARIMAX_fit eng train SARIMA_ORDER SARIMA_SEASONAL_ORDER of
           Inl e \<Rightarrow> Inl e
         | Inr results \<Rightarrow>
             if test = [] then Inl IndexError
             else evaluation_metrics (map snd test)
                    (map (predict eng results) [length train..<length train + length test]))"

text \<open>
  \<^verbatim>\<open>plot_model_evaluation\<close> of visualization.py.  Drawing and saving the figure are outside
  the core; the function's one index operation is \<^verbatim>\<open>train.index[-1]\<close>, for the vertical
  line between train and test, and it raises \<^verbatim>\<open>IndexError\<close> on an empty train split.
\<close>

definition plot_model_evaluation ::
  "series \<Rightarrow> series \<Rightarrow> real list \<Rightarrow> metrics \<Rightarrow> exn + unit" where
  "plot_model_evaluation train test predictions m =
     (if train = [] then Inl IndexError else Inr ())"

text \<open>
  The whole script: the split, the fit, the predictions, the metrics, and at the end the
  call of \<^verbatim>\<open>plot_model_evaluation\<close>.
\<close>

definition model_evaluation_script :: "engine \<Rightarrow> series \<Rightarrow> int \<Rightarrow> exn + metrics" where
  "model_evaluation_script eng monthly_sales test_size =
     (let train = fst (train_test_split monthly_sales test_size);
          test = snd (train_test_split monthly_sales test_size)
      in case SARIMAX_fit eng train SARIMA_ORDER SARIMA_SEASONAL_ORDER of
           Inl e \<Rightarrow> Inl e
         | Inr results \<Rightarrow>
             if test = [] then Inl IndexError
             else
               let predictions =
                     map (predict eng results) [length train..<length train + length test]
               in case evaluation_metrics (map snd test) predictions of
                    Inl e \<Rightarrow> Inl e
                  | Inr m \<Rightarrow>
                      (case plot_model_evaluation train test predictions m of
                         Inl e \<Rightarrow> Inl e
                       | Inr u \<Rightarrow> Inr m))"

section \<open>float64 arithmetic of the metrics\<close>

text \<open>
  A finite float64 value is a real of the form \<open>m * 2^e\<close> with \<open>\<bar>m\<bar> < 2^53\<close> and
  \<open>-1074 \<le> e\<close>.  Every arithmetic operation of numpy returns the exact result rounded to
  the nearest such value, ties to the even \<open>m\<close>, and an infinity when the rounded result
  reaches \<open>2^1024\<close>.  \<open>binade x\<close> is the exponent \<open>e\<close> with \<open>2^e \<le> x < 2^(e+1)\<close>, kept
  between \<open>-1022\<close> (below which the spacing of the values no longer shrinks) and \<open>1024\<close>;
  the spacing of the values around \<open>x\<close> is \<open>2^(binade x - 52)\<close>.  \<open>binade_full\<close> follows the
  exponent further down, for the argument of a square root, whose root is never in the
  lowest range.
\<close>

definition pow2 :: "int \<Rightarrow> real" where
  "pow2 e = (if 0 \<le> e then 2 ^ nat e else 1 / 2 ^ nat (- e))"

primrec exponent_up :: "nat \<Rightarrow> real \<Rightarrow> int" where
  "exponent_up 0 x = 0"
| "exponent_up (Suc n) x = (if 2 \<le> x then exponent_up n (x / 2) + 1 else 0)"

primrec exponent_down :: "nat \<Rightarrow> real \<Rightarrow> int" where
  "exponent_down 0 x = 0"
| "exponent_down (Suc n) x = (if x < 1 then exponent_down n (2 * x) - 1 else 0)"

definition binade :: "real \<Rightarrow> int" where
  "binade x = (if 1 \<le> x then exponent_up 1024 x else exponent_down 1022 x)"

definition binade_full :: "real \<Rightarrow> int" where
  "binade_full x = (if 1 \<le> x then exponent_up 1024 x else exponent_down 1100 x)"

definition round_half_even :: "real \<Rightarrow> int" where
  "round_half_even t =
     (let f = \<lfloor>t\<rfloor>; d = t - real_of_int f
      in if d < 1 / 2 then f
         else if 1 / 2 < d then f + 1
         else if even f then f else f + 1)"

definition round64 :: "real \<Rightarrow> fval" where
  "round64 x =
     (if x = 0 then Fin 0
      else
        let q = pow2 (binade \<bar>x\<bar> - 52);
            y = real_of_int (round_half_even (x / q)) * q
        in if pow2 1024 \<le> y then PInf
           else if y \<le> - pow2 1024 then NInf
           else Fin y)"

text \<open>
  Sum, square and quotient by a positive count of float64 values: the exact result,
  rounded; infinities and \<open>NaN\<close> propagate.
\<close>

fun add64 :: "fval \<Rightarrow> fval \<Rightarrow> fval" where
  "add64 (Fin a) (Fin b) = round64 (a + b)"
| "add64 a b = fadd a b"

fun square64 :: "fval \<Rightarrow> fval" where
  "square64 (Fin a) = round64 (a * a)"
| "square64 NaN = NaN"
| "square64 _ = PInf"

fun div64 :: "fval \<Rightarrow> nat \<Rightarrow> fval" where
  "div64 (Fin a) n = round64 (a / real n)"
| "div64 c n = c"

text \<open>
  The integer square root, and with it the correctly rounded square root: for a
  spacing \<open>q\<close> at the root, \<open>k\<close> is the integer part of \<open>2 * sqrt a / q\<close>, which tells on which
  side of the midpoint between two neighbouring values the root lies.
\<close>

function isqrt :: "int \<Rightarrow> int" where
  "isqrt n =
     (if n < 2 then max 0 n
      else let r = 2 * isqrt (n div 4) in if (r + 1) * (r + 1) \<le> n then r + 1 else r)"
  by pat_completeness auto
termination
  by (relation "measure nat") auto

definition sqrt_round :: "real \<Rightarrow> real" where
  "sqrt_round a =
     (if a = 0 then 0
      else
        let q = pow2 (binade_full a div 2 - 52);
            t = a / (q * q);
            k = isqrt \<lfloor>4 * t\<rfloor>;
            f = k div 2;
            m = (if even k then f
                 else if 4 * t = real_of_int (k * k) then (if even f then f else f + 1)
                 else f + 1)
        in real_of_int m * q)"

fun sqrt64 :: "fval \<Rightarrow> fval" where
  "sqrt64 (Fin a) = (if a < 0 then NaN else Fin (sqrt_round a))"
| "sqrt64 PInf = PInf"
| "sqrt64 _ = NaN"

text \<open>
  numpy's sum of a float64 vector.  Fewer than eight elements are added in sequence.
  Up to 128 elements are added in eight interleaved lanes, the lanes are combined in
  pairs, and the elements after the last full block of eight are added in sequence.
  A longer vector is split near the middle, at a multiple of eight, and the sums of the
  two parts are added.  The reduction starts from the identity \<open>0\<close>.
\<close>

function lanes_loop :: "fval list \<Rightarrow> fval list \<Rightarrow> fval list \<times> fval list" where
  "lanes_loop r xs =
     (if 8 \<le> length xs then lanes_loop (map2 add64 r (take 8 xs)) (drop 8 xs) else (r, xs))"
  by pat_completeness auto
termination
  by (relation "measure (\<lambda>(r, xs). length xs)") auto

definition sum_lanes :: "fval list \<Rightarrow> fval" where
  "sum_lanes r =
     add64 (add64 (add64 (r ! 0) (r ! 1)) (add64 (r ! 2) (r ! 3)))
           (add64 (add64 (r ! 4) (r ! 5)) (add64 (r ! 6) (r ! 7)))"

function pairwise_sum :: "fval list \<Rightarrow> fval" where
  "pairwise_sum xs =
     (if length xs < 8 then foldl add64 (Fin 0) xs
      else if length xs \<le> 128 then
        (case lanes_loop (take 8 xs) (drop 8 xs) of
           (r, rest) \<Rightarrow> foldl add64 (sum_lanes r) rest)
      else
        add64 (pairwise_sum (take (length xs div 2 - length xs div 2 mod 8) xs))
              (pairwise_sum (drop (length xs div 2 - length xs div 2 mod 8) xs)))"
  by pat_completeness auto
termination
  by (relation "measure length") auto

definition np_sum :: "fval list \<Rightarrow> fval" where
  "np_sum xs = add64 (Fin 0) (pairwise_sum xs)"

text \<open>
  The float64 results of scikit-learn's \<^verbatim>\<open>mean_absolute_error\<close>, which is the mean of
  \<^verbatim>\<open>np.abs(y_pred - y_true)\<close>, of \<^verbatim>\<open>mean_squared_error\<close>, which is the mean of
  \<^verbatim>\<open>(y_true - y_pred) ** 2\<close>, and of \<^verbatim>\<open>np.sqrt(mean_squared_error(test, predictions))\<close>.
\<close>

definition mean_absolute_error_f64 :: "real list \<Rightarrow> real list \<Rightarrow> exn + fval" where
  "mean_absolute_error_f64 y_true y_pred =
     (case check_targets y_true y_pred of
        Some e \<Rightarrow> Inl e
      | None \<Rightarrow>
          Inr (div64 (np_sum (map2 (\<lambda>a p. fabs (round64 (p - a))) y_true y_pred))
                 (length y_true)))"

definition mean_squared_error_f64 :: "real list \<Rightarrow> real list \<Rightarrow> exn + fval" where
  "mean_squared_error_f64 y_true y_pred =
     (case check_targets y_true y_pred of
        Some e \<Rightarrow> Inl e
      | None \<Rightarrow>
          Inr (div64 (np_sum (map2 (\<lambda>a p. square64 (round64 (a - p))) y_true y_pred))
                 (length y_true)))"

definition rmse_f64 :: "real list \<Rightarrow> real list \<Rightarrow> exn + fval" where
  "rmse_f64 y_true y_pred =
     (case mean_squared_error_f64 y_true y_pred of Inl e \<Rightarrow> Inl e | Inr mse \<Rightarrow> Inr (sqrt64 mse))"

text \<open>
  The comparison \<^verbatim>\<open>x <= y\<close> on floats, and the float64 value nearest to \<open>0.1\<close>.
\<close>

fun fle :: "fval \<Rightarrow> fval \<Rightarrow> bool" where
  "fle NaN _ = False"
| "fle _ NaN = False"
| "fle (Fin a) (Fin b) = (a \<le> b)"
| "fle NInf _ = True"
| "fle _ PInf = True"
| "fle _ _ = False"

definition tenth :: real where
  "tenth = 3602879701896397 / 36028797018963968"

declare isqrt.simps [simp del]
declare lanes_loop.simps [simp del]
declare pairwise_sum.simps [simp del]

section \<open>The files and the environment of the scripts\<close>

text \<open>
  A JSON value of a metadata dictionary; \<open>JObject\<close> stands for a Python object that the
  JSON encoder rejects.  A dictionary is the list of its items in insertion order, with
  distinct keys; assigning to a key replaces the value in place or appends the item.
\<close>

datatype jvalue = JStr string | JInt int | JNum real | JList "jvalue list" | JObject

fun serializable :: "jvalue \<Rightarrow> bool" where
  "serializable (JList vs) = list_all serializable vs"
| "serializable JObject = False"
| "serializable _ = True"

type_synonym metadata_dict = "(string \<times> jvalue) list"

text \<open>
  The bytes of a file either decode to a value (\<open>Holds\<close>) or do not (\<open>Garbled\<close>), as after
  a write that was cut short.  The model file also has the size and the modification
  time that \<^verbatim>\<open>stat()\<close> reports.
\<close>

datatype 'a content = Garbled | Holds 'a

datatype pkl_file = PklFile (pkl_content: "fitted content") (st_size: nat) (st_mtime: nat)

datatype log_entry = INFO string | ERROR string | META string jvalue

text \<open>
  The part of the world that the scripts read and write: the model file, the metadata
  file, the cleaned sales file (seen through \<^verbatim>\<open>read_csv\<close> and the monthly aggregation,
  which are outside the core), the forecast output file, and the log.  \<open>None\<close> is an
  absent file.
\<close>

record world =
  model_file :: "pkl_file option"
  metadata_file :: "metadata_dict content option"
  cleaned_sales_file :: "series option"
  forecast_output_file :: "(string \<times> real) list option"
  log_lines :: "log_entry list"

text \<open>
  What the operating system decides: the project directory, the clock, whether writing
  the pickle or opening the metadata file for writing raises, and what a raising dump
  leaves of the model file: nothing new (\<open>None\<close>, as when the file cannot be opened) or a
  truncated file of the given size.
\<close>

record os_env =
  project_root :: string
  now_isoformat :: string
  fromtimestamp_isoformat :: "nat \<Rightarrow> string"
  clock :: nat
  pickle_size :: "fitted \<Rightarrow> nat"
  dump_raises :: bool
  failed_dump_leaves :: "nat option"
  open_raises :: bool

definition SARIMA_MODEL_FILE :: "os_env \<Rightarrow> string" where
  "SARIMA_MODEL_FILE env = project_root env @ ''/models/sarima_model.pkl''"

definition MODEL_METADATA_FILE :: "os_env \<Rightarrow> string" where
  "MODEL_METADATA_FILE env = project_root env @ ''/models/model_metadata.json''"

text \<open>logger.py.  Messages are abbreviated to their fixed part.\<close>

definition log_info :: "string \<Rightarrow> world \<Rightarrow> world" where
  "log_info msg w = w\<lparr>log_lines := log_lines w @ [INFO msg]\<rparr>"

definition log_success :: "string \<Rightarrow> world \<Rightarrow> world" where
  "log_success msg w = log_info msg w"

definition log_error :: "string \<Rightarrow> world \<Rightarrow> world" where
  "log_error msg w = w\<lparr>log_lines := log_lines w @ [ERROR msg]\<rparr>"

text \<open>\<^verbatim>\<open>sys.exit(1)\<close> after \<^verbatim>\<open>log_error\<close>.\<close>

definition exit_1 :: "string \<Rightarrow> world \<Rightarrow> (exn + 'a) \<times> world" where
  "exit_1 msg w = (Inl (SystemExit 1), log_error msg w)"

section \<open>model_utils.py\<close>

text \<open>\<^verbatim>\<open>if metadata:\<close> holds for a dictionary that is neither \<^verbatim>\<open>None\<close> nor empty.\<close>

definition truthy :: "metadata_dict option \<Rightarrow> bool" where
  "truthy md = (md \<noteq> None \<and> md \<noteq> Some [])"

definition stamped :: "os_env \<Rightarrow> metadata_dict \<Rightarrow> metadata_dict" where
  "stamped env md =
     AList.update ''model_file'' (JStr (SARIMA_MODEL_FILE env))
       (AList.update ''saved_at'' (JStr (now_isoformat env)) md)"

text \<open>
  The \<^verbatim>\<open>try\<close> block of \<^verbatim>\<open>save_model\<close>.  \<^verbatim>\<open>joblib.dump\<close> writes the model file or raises,
  leaving it as it was or truncated.  For a truthy dictionary the two keys are set, the metadata file
  is opened for writing, which truncates it, and \<^verbatim>\<open>json.dump\<close> writes it; on a value it
  cannot encode \<^verbatim>\<open>json.dump\<close> raises \<^verbatim>\<open>TypeError\<close> after a part of the text has been
  written.
\<close>

definition save_model_try :: "os_env \<Rightarrow> fitted \<Rightarrow> metadata_dict option \<Rightarrow> world \<Rightarrow> (exn + unit) \<times> world" where
  "save_model_try env model md w =
     (if dump_raises env then
        (Inl OSError,
         case failed_dump_leaves env of
           None \<Rightarrow> w
         | Some n \<Rightarrow> w\<lparr>model_file := Some (PklFile Garbled n (clock env))\<rparr>)
      else
        let w1 = log_success ''Model saved''
                   (w\<lparr>model_file := Some (PklFile (Holds model) (pickle_size env model) (clock env))\<rparr>)
        in if truthy md then
             (if open_raises env then (Inl OSError, w1)
              else if \<not> list_all (\<lambda>(k, v). serializable v) (stamped env (the md))
                then (Inl TypeError, w1\<lparr>metadata_file := Some Garbled\<rparr>)
              else (Inr (), log_success ''Metadata saved''
                      (w1\<lparr>metadata_file := Some (Holds (stamped env (the md)))\<rparr>)))
           else (Inr (), w1))"

text \<open>\<^verbatim>\<open>return True\<close> at the end of the block; \<^verbatim>\<open>except Exception\<close> logs and returns \<^verbatim>\<open>False\<close>.\<close>

definition save_model :: "os_env \<Rightarrow> fitted \<Rightarrow> metadata_dict option \<Rightarrow> world \<Rightarrow> bool \<times> world" where
  "save_model env model md w =
     (case save_model_try env model md w of
        (Inl e, w') \<Rightarrow> (False, log_error ''Failed to save model'' w')
      | (Inr u, w') \<Rightarrow> (True, w'))"

text \<open>
  \<^verbatim>\<open>load_model\<close>: both \<^verbatim>\<open>except\<close> clauses log and raise again.  With \<^verbatim>\<open>check_metadata\<close> the
  metadata is read and logged item by item; nothing is compared with the model.
\<close>

definition load_model :: "os_env \<Rightarrow> bool \<Rightarrow> world \<Rightarrow> (exn + fitted) \<times> world" where
  "load_model env check_metadata w =
     (case model_file w of
        None \<Rightarrow> (Inl (FileNotFoundError ''Model file not found''),
                 log_error ''Model file not found'' w)
      | Some f \<Rightarrow>
          (case pkl_content f of
             Garbled \<Rightarrow> (Inl UnpicklingError, log_error ''Failed to load model'' w)
           | Holds model \<Rightarrow>
               let w1 = log_success ''Model loaded'' w
               in if check_metadata then
                    (case metadata_file w of
                       None \<Rightarrow> (Inr model, w1)
                     | Some Garbled \<Rightarrow> (Inl JSONDecodeError, log_error ''Failed to load model'' w1)
                     | Some (Holds md) \<Rightarrow>
                         (Inr model,
                          (log_info ''--- Model Metadata ---'' w1)
                            \<lparr>log_lines := log_lines (log_info ''--- Model Metadata ---'' w1)
                                           @ map (\<lambda>(k, v). META k v) md\<rparr>))
                  else (Inr model, w1)))"

text \<open>
  The dictionary that \<^verbatim>\<open>get_model_info\<close> returns: four keys are always present, the
  other three are optional.
\<close>

record info =
  model_exists :: bool
  model_path :: string
  metadata_exists :: bool
  metadata_path :: string
  model_size_mb :: "real option"
  model_modified :: "string option"
  metadata :: "metadata_dict option"

text \<open>\<^verbatim>\<open>get_model_info\<close> has no \<^verbatim>\<open>try\<close>: an exception of \<^verbatim>\<open>json.load\<close> leaves the function.\<close>

definition get_model_info :: "os_env \<Rightarrow> world \<Rightarrow> exn + info" where
  "get_model_info env w =
     (let info0 = \<lparr>model_exists = (model_file w \<noteq> None),
                   model_path = SARIMA_MODEL_FILE env,
                   metadata_exists = (metadata_file w \<noteq> None),
                   metadata_path = MODEL_METADATA_FILE env,
                   model_size_mb = None, model_modified = None, metadata = None\<rparr>;
          info1 = (case model_file w of
                     None \<Rightarrow> info0
                   | Some f \<Rightarrow>
                       info0\<lparr>model_size_mb := Some (real (st_size f) / (1024 * 1024)),
                             model_modified := Some (fromtimestamp_isoformat env (st_mtime f))\<rparr>)
      in case metadata_file w of
           None \<Rightarrow> Inr info1
         | Some Garbled \<Rightarrow> Inl JSONDecodeError
         | Some (Holds md) \<Rightarrow> Inr (info1\<lparr>metadata := Some md\<rparr>))"

section \<open>forecast.py\<close>

text \<open>\<^verbatim>\<open>load_monthly_sales\<close> of this script: every exception ends in \<^verbatim>\<open>sys.exit(1)\<close>.\<close>

definition forecast_load_monthly_sales :: "world \<Rightarrow> (exn + series) \<times> world" where
  "forecast_load_monthly_sales w =
     (case cleaned_sales_file w of
        None \<Rightarrow> exit_1 ''Error loading data'' w
      | Some monthly_sales \<Rightarrow> (Inr monthly_sales, log_success ''Loaded sales data'' w))"

definition train_model :: "engine \<Rightarrow> series \<Rightarrow> exn + fitted" where
  "train_model eng s = SARIMAX_fit eng s SARIMA_ORDER SARIMA_SEASONAL_ORDER"

text \<open>
  \<^verbatim>\<open>forecast_next\<close>: the predicted mean, with its index, and the interval for each of the
  \<open>steps\<close> months after the end of the series bound to the model.
\<close>

type_synonym forecast = "(string \<times> real) list \<times> (real \<times> real) list"

definition forecast_next :: "engine \<Rightarrow> fitted \<Rightarrow> nat option \<Rightarrow> forecast" where
  "forecast_next eng model steps =
     (let k = (case steps of None \<Rightarrow> FORECAST_HORIZON | Some k \<Rightarrow> k);
          n = length (endog model)
      in (map (\<lambda>t. (index_label eng model t, predict eng model t)) [n..<n + k],
          map (conf_int eng model) [n..<n + k]))"

text \<open>
  \<^verbatim>\<open>main\<close>.  \<^verbatim>\<open>except Exception\<close> turns every exception into \<^verbatim>\<open>sys.exit(1)\<close>; an exit
  raised inside passes through it.  Plotting is outside the core.
\<close>

definition obtain_model :: "os_env \<Rightarrow> engine \<Rightarrow> info \<Rightarrow> world \<Rightarrow> (exn + fitted) \<times> world" where
  "obtain_model env eng model_info w =
     (if model_exists model_info then load_model env True w
      else (case forecast_load_monthly_sales w of
              (Inl e, w1) \<Rightarrow> (Inl e, w1)
            | (Inr sales, w1) \<Rightarrow>
                (case train_model eng sales of
                   Inl e \<Rightarrow> (Inl e, w1)
                 | Inr model \<Rightarrow> (Inr model, log_success ''Model trained successfully'' w1))))"

definition forecast_main :: "os_env \<Rightarrow> engine \<Rightarrow> world \<Rightarrow> (exn + forecast) \<times> world" where
  "forecast_main env eng w =
     (case get_model_info env w of
        Inl e \<Rightarrow> exit_1 ''Forecasting failed'' w
      | Inr model_info \<Rightarrow>
          (case obtain_model env eng model_info w of
             (Inl (SystemExit c), w1) \<Rightarrow> (Inl (SystemExit c), w1)
           | (Inl e, w1) \<Rightarrow> exit_1 ''Forecasting failed'' w1
           | (Inr model, w1) \<Rightarrow>
               (case forecast_load_monthly_sales w1 of
                  (Inl e, w2) \<Rightarrow> (Inl e, w2)
                | (Inr sales, w2) \<Rightarrow>
                    let fc = forecast_next eng model None;
                        w3 = log_success ''Forecast generated successfully'' w2;
                        w4 = log_success ''Forecast saved''
                               (w3\<lparr>forecast_output_file := Some (fst fc)\<rparr>)
                    in (Inr fc, log_info ''--- Forecast Summary ---'' w4))))"

text \<open>
  The staleness that the specification speaks of: the end date in the metadata's
  \<^verbatim>\<open>date_range\<close>, which has the form \<^verbatim>\<open>"<first> to <last>"\<close>, differs from the last
  index of the series bound to the model.
\<close>

fun after_to :: "string \<Rightarrow> string option" where
  "after_to [] = None"
| "after_to (c # cs) =
     (if take 4 (c # cs) = '' to '' then Some (drop 4 (c # cs)) else after_to cs)"

definition metadata_end_date :: "metadata_dict \<Rightarrow> string option" where
  "metadata_end_date md =
     (case map_of md ''date_range'' of Some (JStr r) \<Rightarrow> after_to r | _ \<Rightarrow> None)"

definition bound_end_date :: "fitted \<Rightarrow> string option" where
  "bound_end_date model = (if endog model = [] then None else Some (fst (last (endog model))))"

definition spec_stale :: "fitted \<Rightarrow> metadata_dict \<Rightarrow> bool" where
  "spec_stale model md = (metadata_end_date md \<noteq> bound_end_date model)"

section \<open>train_sarima.py\<close>

text \<open>
  The \<^verbatim>\<open>try\<close> block of \<^verbatim>\<open>load_monthly_sales\<close> of this script, with its two \<^verbatim>\<open>raise\<close>
  statements, and the function: both \<^verbatim>\<open>except\<close> clauses log the error and call
  \<^verbatim>\<open>sys.exit(1)\<close>.
\<close>

definition insufficient_data :: exn where
  "insufficient_data = ValueError ''Insufficient data''"

definition train_load_try :: "world \<Rightarrow> exn + series" where
  "train_load_try w =
     (case cleaned_sales_file w of
        None \<Rightarrow> Inl (FileNotFoundError ''Cleaned data not found'')
      | Some monthly_sales \<Rightarrow>
          if length monthly_sales < 24 then Inl insufficient_data
          else Inr monthly_sales)"

definition train_load_monthly_sales :: "world \<Rightarrow> (exn + series) \<times> world" where
  "train_load_monthly_sales w =
     (case train_load_try w of
        Inl (FileNotFoundError msg) \<Rightarrow> exit_1 msg w
      | Inl (ValueError msg) \<Rightarrow> exit_1 (''Error loading data: '' @ msg) w
      | Inl e \<Rightarrow> exit_1 ''Error loading data'' w
      | Inr monthly_sales \<Rightarrow> (Inr monthly_sales, log_success ''Loaded sales data'' w))"

text \<open>\<^verbatim>\<open>train_sarima\<close>: a failing fit is logged and raised again.\<close>

definition train_sarima :: "engine \<Rightarrow> series \<Rightarrow> world \<Rightarrow> (exn + fitted) \<times> world" where
  "train_sarima eng s w =
     (let w1 = log_info ''Training SARIMA'' w
      in case SARIMAX_fit eng s SARIMA_ORDER SARIMA_SEASONAL_ORDER of
           Inl e \<Rightarrow> (Inl e, log_error ''Error training model'' w1)
         | Inr results \<Rightarrow> (Inr results, log_success ''Model trained successfully'' w1))"

definition date_range :: "series \<Rightarrow> string" where
  "date_range s = (if s = [] then ''NaT to NaT'' else fst (hd s) @ '' to '' @ fst (last s))"

definition order_json :: "order3 \<Rightarrow> jvalue" where
  "order_json ord = (case ord of (p, d, q) \<Rightarrow> JList [JInt p, JInt d, JInt q])"

definition seasonal_order_json :: "order4 \<Rightarrow> jvalue" where
  "seasonal_order_json sord = (case sord of (P, D, Q, m) \<Rightarrow> JList [JInt P, JInt D, JInt Q, JInt m])"

definition training_metadata :: "series \<Rightarrow> fitted \<Rightarrow> metadata_dict" where
  "training_metadata sales model_results =
     [(''model_type'', JStr ''SARIMA''),
      (''order'', order_json SARIMA_ORDER),
      (''seasonal_order'', seasonal_order_json SARIMA_SEASONAL_ORDER),
      (''n_observations'', JInt (int (length sales))),
      (''date_range'', JStr (date_range sales)),
      (''aic'', JNum (aic model_results)),
      (''bic'', JNum (bic model_results))]"

text \<open>
  \<^verbatim>\<open>main\<close>: an exit raised while loading passes through; a failing fit ends in
  \<^verbatim>\<open>sys.exit(1)\<close>; the result of \<^verbatim>\<open>save_model\<close> is not looked at.  The result is the
  exception that ends the run, or the fitted model of a run that completes.
\<close>

definition train_main :: "os_env \<Rightarrow> engine \<Rightarrow> world \<Rightarrow> (exn + fitted) \<times> world" where
  "train_main env eng w =
     (case train_load_monthly_sales w of
        (Inl e, w1) \<Rightarrow> (Inl e, w1)
      | (Inr sales, w1) \<Rightarrow>
          (case train_sarima eng sales w1 of
             (Inl e, w2) \<Rightarrow> exit_1 ''Training failed'' w2
           | (Inr model_results, w2) \<Rightarrow>
               (Inr model_results,
                log_info ''TRAINING COMPLETED SUCCESSFULLY''
                  (snd (save_model env model_results
                          (Some (training_metadata sales model_results)) w2)))))"

text \<open>
  A concrete engine, and concrete series, on which the scripts are evaluated below: the
  engine fits every series and predicts \<open>1\<close> for every month.
\<close>

definition constant_engine :: engine where
  "constant_engine =
     \<lparr>estimate = (\<lambda>s ord sord. Some (10, 20)),
      predict = (\<lambda>results t. 1),
      conf_int = (\<lambda>results t. (0, 2)),
      index_label = (\<lambda>results t. ''later'')\<rparr>"

definition sales_3 :: series where
  "sales_3 = [(''2014-01'', 1), (''2014-02'', 1), (''2014-03'', 1)]"

definition sales_13 :: series where
  "sales_13 =
     [(''2014-01'', 5), (''2014-02'', 1), (''2014-03'', 1), (''2014-04'', 1),
      (''2014-05'', 1), (''2014-06'', 1), (''2014-07'', 1), (''2014-08'', 1),
      (''2014-09'', 1), (''2014-10'', 1), (''2014-11'', 1), (''2014-12'', 1),
      (''2015-01'', 0)]"

definition sales_24 :: series where
  "sales_24 =
     [(''2013-01'', 5), (''2013-02'', 6), (''2013-03'', 7), (''2013-04'', 8),
      (''2013-05'', 9), (''2013-06'', 8), (''2013-07'', 7), (''2013-08'', 6),
      (''2013-09'', 5), (''2013-10'', 6), (''2013-11'', 7), (''2013-12'', 9),
      (''2014-01'', 5), (''2014-02'', 6), (''2014-03'', 7), (''2014-04'', 8),
      (''2014-05'', 9), (''2014-06'', 8), (''2014-07'', 7), (''2014-08'', 6),
      (''2014-09'', 5), (''2014-10'', 6), (''2014-11'', 7), (''2014-12'', 9)]"

text \<open>A concrete environment and concrete worlds.\<close>

definition test_env :: os_env where
  "test_env =
     \<lparr>project_root = ''/srv/app'',
      now_isoformat = ''2015-02-01T09:00:00'',
      fromtimestamp_isoformat = (\<lambda>t. ''2015-02-01T08:00:00''),
      clock = 1422777600,
      pickle_size = (\<lambda>model. 2097152),
      dump_raises = False,
      failed_dump_leaves = None,
      open_raises = False\<rparr>"

definition fresh_world :: world where
  "fresh_world =
     \<lparr>model_file = None, metadata_file = None, cleaned_sales_file = None,
      forecast_output_file = None, log_lines = []\<rparr>"

definition model_13 :: fitted where
  "model_13 =
     \<lparr>endog = sales_13, model_order = SARIMA_ORDER,
      model_seasonal_order = SARIMA_SEASONAL_ORDER, aic = 10, bic = 20\<rparr>"

definition old_metadata :: metadata_dict where
  "old_metadata =
     [(''model_type'', JStr ''SARIMA''),
      (''n_observations'', JInt 12),
      (''date_range'', JStr ''2014-01 to 2014-12'')]"

definition stale_world :: world where
  "stale_world =
     \<lparr>model_file = Some (PklFile (Holds model_13) 2097152 1422777600),
      metadata_file = Some (Holds old_metadata),
      cleaned_sales_file = Some sales_13,
      forecast_output_file = None, log_lines = []\<rparr>"

definition orphan_metadata_world :: world where
  "orphan_metadata_world = fresh_world\<lparr>metadata_file := Some (Holds old_metadata)\<rparr>"

definition short_history_world :: world where
  "short_history_world = fresh_world\<lparr>cleaned_sales_file := Some sales_13\<rparr>"

definition two_year_world :: world where
  "two_year_world = fresh_world\<lparr>cleaned_sales_file := Some sales_24\<rparr>"

text \<open>Concrete estimators, on which the search is evaluated below.\<close>

definition failing_estimator :: estimator where
  "failing_estimator s ord sord = (case ord of (p, d, q) \<Rightarrow>
     if p = 1 then None else Some (10 + real_of_int p, 20))"

definition tied_estimator :: estimator where
  "tied_estimator s ord sord = (case ord of (p, d, q) \<Rightarrow>
     if p = 0 then Some (10, 7) else Some (10, 5))"

section \<open>Properties of differencing\<close>

lemma diff_from_observed:
  "diff_from (Some a) (observed xs) =
     map (\<lambda>t. (fst (xs ! t), Some (snd (xs ! t) - (a # map snd xs) ! t))) [0..<length xs]"
proof (induction xs arbitrary: a)
  case Nil
  show ?case by (simp add: observed_def)
next
  case (Cons x xs)
  obtain i v where x: "x = (i, v)" by (cases x)
  have "diff_from (Some a) (observed (x # xs)) = (i, Some (v - a)) # diff_from (Some v) (observed xs)"
    by (simp add: x observed_def)
  also have "\<dots> = (i, Some (v - a)) #
      map (\<lambda>t. (fst (xs ! t), Some (snd (xs ! t) - (v # map snd xs) ! t))) [0..<length xs]"
    using Cons.IH [of v] by simp
  also have "\<dots> = map (\<lambda>t. (fst ((x # xs) ! t),
        Some (snd ((x # xs) ! t) - (a # map snd (x # xs)) ! t))) [0..<length (x # xs)]"
    by (simp add: x upt_conv_Cons map_Suc_upt [symmetric] del: upt_Suc)
  finally show ?case .
qed

lemma dropna_diff_from_observed:
  "dropna (diff_from (Some a) (observed xs)) = diff_from (Some a) (observed xs)"
  by (induction xs arbitrary: a) (auto simp: dropna_def observed_def)

lemma difference_series_observed:
  "difference_series (observed xs) =
     map (\<lambda>t. (fst (xs ! t), Some (snd (xs ! t) - snd (xs ! (t - 1))))) [1..<length xs]"
proof (cases xs)
  case Nil
  then show ?thesis by (simp add: difference_series_def diff_def dropna_def observed_def)
next
  case (Cons x rest)
  obtain i v where x: "x = (i, v)" by (cases x)
  have "difference_series (observed xs) = diff_from (Some v) (observed rest)"
    using dropna_diff_from_observed [of v rest]
    by (simp add: Cons x difference_series_def diff_def dropna_def observed_def)
  also have "\<dots> = map (\<lambda>t. (fst (rest ! t), Some (snd (rest ! t) - (v # map snd rest) ! t))) [0..<length rest]"
    by (rule diff_from_observed)
  also have "\<dots> = map (\<lambda>t. (fst (xs ! t), Some (snd (xs ! t) - snd (xs ! (t - 1))))) [1..<length xs]"
  proof (rule nth_equalityI)
    show "length (map (\<lambda>t. (fst (rest ! t), Some (snd (rest ! t) - (v # map snd rest) ! t))) [0..<length rest]) =
          length (map (\<lambda>t. (fst (xs ! t), Some (snd (xs ! t) - snd (xs ! (t - 1))))) [1..<length xs])"
      by (simp only: length_map length_upt Cons list.size)
  next
    fix k assume "k < length (map (\<lambda>t. (fst (rest ! t), Some (snd (rest ! t) - (v # map snd rest) ! t))) [0..<length rest])"
    then have k: "k < length rest" by simp
    then show "map (\<lambda>t. (fst (rest ! t), Some (snd (rest ! t) - (v # map snd rest) ! t))) [0..<length rest] ! k =
               map (\<lambda>t. (fst (xs ! t), Some (snd (xs ! t) - snd (xs ! (t - 1))))) [1..<length xs] ! k"
      by (cases k) (simp_all add: Cons x nth_map_upt del: upt_Suc)
  qed
  finally show ?thesis .
qed


text \<open>
  Claim C5.  For a series of \<open>n\<close> rows without missing cells, \<^verbatim>\<open>difference_series\<close>
  returns \<open>n - 1\<close> rows (none for the empty series): the row for position \<open>t \<ge> 1\<close>
  carries the index of row \<open>t\<close> and the value \<open>series[t] - series[t-1]\<close>.  The first
  row, which has no predecessor, is dropped; no row of the result is a missing marker.
\<close>

theorem difference_series_length_and_values:
  "(xs \<noteq> [] \<longrightarrow> int (length (difference_series (observed xs))) = int (length xs) - 1) \<and>
   (xs = [] \<longrightarrow> difference_series (observed xs) = []) \<and>
   (\<forall>t. 1 \<le> t \<and> t < length xs \<longrightarrow>
      difference_series (observed xs) ! (t - 1) =
        (fst (xs ! t), Some (snd (xs ! t) - snd (xs ! (t - 1))))) \<and>
   (\<forall>r \<in> set (difference_series (observed xs)). snd r \<noteq> None)"
proof -
  let ?d = "difference_series (observed xs)"
  have eq: "?d = map (\<lambda>t. (fst (xs ! t), Some (snd (xs ! t) - snd (xs ! (t - 1))))) [1..<length xs]"
    by (rule difference_series_observed)
  have len: "length ?d = length xs - 1"
    by (simp only: eq length_map length_upt)
  have l1: "xs \<noteq> [] \<longrightarrow> int (length ?d) = int (length xs) - 1"
  proof
    assume "xs \<noteq> []"
    then have "1 \<le> length xs" by (cases xs) simp_all
    then show "int (length ?d) = int (length xs) - 1" using len by simp
  qed
  have l2: "xs = [] \<longrightarrow> ?d = []"
    by (simp add: difference_series_def diff_def dropna_def observed_def)
  have l3: "\<forall>t. 1 \<le> t \<and> t < length xs \<longrightarrow>
      ?d ! (t - 1) = (fst (xs ! t), Some (snd (xs ! t) - snd (xs ! (t - 1))))"
  proof (intro allI impI)
    fix t assume t: "1 \<le> t \<and> t < length xs"
    then have "t - 1 < length xs - 1" by arith
    then have "map (\<lambda>t. (fst (xs ! t), Some (snd (xs ! t) - snd (xs ! (t - 1))))) [1..<length xs] ! (t - 1)
        = (fst (xs ! (1 + (t - 1))), Some (snd (xs ! (1 + (t - 1))) - snd (xs ! (1 + (t - 1) - 1))))"
      by (rule nth_map_upt)
    then show "?d ! (t - 1) = (fst (xs ! t), Some (snd (xs ! t) - snd (xs ! (t - 1))))"
      using t eq by simp
  qed
  have l4: "\<forall>r \<in> set ?d. snd r \<noteq> None"
    by (subst eq) auto
  from l1 l2 l3 l4 show ?thesis by blast
qed

theorem difference_series_length_and_values_witness:
  "int (length (difference_series (observed [(''2014-01'', 100), (''2014-02'', 130), (''2014-03'', 125)]))) = 2 \<and>
   difference_series (observed [(''2014-01'', 100), (''2014-02'', 130), (''2014-03'', 125)]) ! 1 =
     (''2014-03'', Some (- 5))"
proof -
  let ?xs = "[(''2014-01'', 100), (''2014-02'', 130), (''2014-03'', 125)] :: series"
  note th = difference_series_length_and_values [of ?xs]
  from th have a: "int (length (difference_series (observed ?xs))) = 2"
    by simp
  from th have "1 \<le> (2::nat) \<and> 2 < length ?xs \<longrightarrow>
      difference_series (observed ?xs) ! (2 - 1) =
        (fst (?xs ! 2), Some (snd (?xs ! 2) - snd (?xs ! (2 - 1))))"
    by blast
  then have b: "difference_series (observed ?xs) ! 1 = (''2014-03'', Some (- 5))"
    by simp
  from a b show ?thesis by simp
qed


section \<open>Properties of the order search\<close>

lemma grid_loop_append:
  "grid_loop est s m cs results = results @ List.map_filter (try_fit est s m) cs"
  by (induction cs arbitrary: results) (auto simp: List.map_filter_simps split: option.splits)

lemma length_map_filter_le: "length (List.map_filter f xs) \<le> length xs"
  by (induction xs) (auto split: option.splits)

lemma length_combinations:
  "length (combinations pr dr qr Pr Dr Qr) = total_combinations pr dr qr Pr Dr Qr"
  by (simp add: combinations_def total_combinations_def length_concat o_def sum_list_triv)

lemma length_values_of: "length (values_of (lo, hi)) = nat (hi - lo + 1)"
  by (simp add: values_of_def)

lemma set_map_filter_try_fit:
  "r \<in> set (List.map_filter (try_fit est s m) cs) \<longleftrightarrow>
     (\<exists>c \<in> set cs. try_fit est s m c = Some r)"
  by (induction cs) (auto simp: List.map_filter_simps split: option.splits)

lemma try_fit_Some:
  "try_fit est s m (p, d, q, P, D, Q) = Some r \<Longrightarrow>
     order r = (p, d, q) \<and> seasonal_order r = (P, D, Q, m) \<and>
     est s (p, d, q) (P, D, Q, m) = Some (AIC r, BIC r)"
  by (auto simp: try_fit_def split: prod.splits option.splits)

lemma params_try_fit: "try_fit est s m c = Some r \<Longrightarrow> params r = c"
  by (auto simp: try_fit_def params_def split: prod.splits option.splits)

lemma grid_search_Inr:
  "grid_search_sarima est s pr dr qr Pr Dr Qr m = Inr rows \<Longrightarrow>
     rows = sort_key AIC (List.map_filter (try_fit est s m) (combinations pr dr qr Pr Dr Qr))"
  by (auto simp: grid_search_sarima_def sort_values_AIC_def grid_loop_append split: if_splits)

lemma grid_search_raises_iff:
  "grid_search_sarima est s pr dr qr Pr Dr Qr m = Inl (KeyError ''AIC'') \<longleftrightarrow>
     (\<forall>c \<in> set (combinations pr dr qr Pr Dr Qr). try_fit est s m c = None)"
proof -
  have "List.map_filter (try_fit est s m) cs = [] \<longleftrightarrow> (\<forall>c \<in> set cs. try_fit est s m c = None)" for cs
    by (induction cs) (auto simp: List.map_filter_simps split: option.splits)
  then show ?thesis
    by (simp add: grid_search_sarima_def sort_values_AIC_def grid_loop_append)
qed

text \<open>
  Claim C8.  Whenever the search returns a result, every row stems from a combination
  of the Cartesian product whose fit succeeded and carries that fit's \<^verbatim>\<open>AIC\<close> and \<^verbatim>\<open>BIC\<close>;
  a combination whose fit raises has no row at all; and the number of rows is at most
  the size of the Cartesian product of the six ranges.
\<close>

theorem grid_search_drops_failed_fits:
  assumes "grid_search_sarima est s pr dr qr Pr Dr Qr m = Inr rows"
  shows "(\<forall>r \<in> set rows. params r \<in> set (combinations pr dr qr Pr Dr Qr) \<and>
            est s (order r) (seasonal_order r) = Some (AIC r, BIC r)) \<and>
         (\<forall>p d q P D Q. est s (p, d, q) (P, D, Q, m) = None \<longrightarrow>
            (p, d, q, P, D, Q) \<notin> params ` set rows) \<and>
         length rows \<le> total_combinations pr dr qr Pr Dr Qr"
proof -
  let ?cs = "combinations pr dr qr Pr Dr Qr"
  have rows: "rows = sort_key AIC (List.map_filter (try_fit est s m) ?cs)"
    using assms by (rule grid_search_Inr)
  have mem: "\<exists>c \<in> set ?cs. try_fit est s m c = Some r" if "r \<in> set rows" for r
    using that by (simp add: rows set_map_filter_try_fit)
  have a: "\<forall>r \<in> set rows. params r \<in> set ?cs \<and>
            est s (order r) (seasonal_order r) = Some (AIC r, BIC r)"
  proof
    fix r assume "r \<in> set rows"
    then obtain c where c: "c \<in> set ?cs" "try_fit est s m c = Some r"
      using mem by blast
    obtain p d q P D Q where "c = (p, d, q, P, D, Q)" by (cases c)
    with c show "params r \<in> set ?cs \<and> est s (order r) (seasonal_order r) = Some (AIC r, BIC r)"
      using try_fit_Some [of est s m p d q P D Q r] params_try_fit [of est s m c r] by simp
  qed
  have b: "\<forall>p d q P D Q. est s (p, d, q) (P, D, Q, m) = None \<longrightarrow>
            (p, d, q, P, D, Q) \<notin> params ` set rows"
  proof (intro allI impI notI)
    fix p d q P D Q
    assume fails: "est s (p, d, q) (P, D, Q, m) = None"
      and "(p, d, q, P, D, Q) \<in> params ` set rows"
    then obtain r where r: "r \<in> set rows" "params r = (p, d, q, P, D, Q)" by auto
    then obtain c where c: "try_fit est s m c = Some r" using mem by blast
    then have "c = (p, d, q, P, D, Q)" using params_try_fit r by metis
    with c have "est s (p, d, q) (P, D, Q, m) = Some (AIC r, BIC r)"
      using try_fit_Some by blast
    with fails show False by simp
  qed
  have "length rows \<le> length ?cs"
    by (simp add: rows length_map_filter_le)
  then have c: "length rows \<le> total_combinations pr dr qr Pr Dr Qr"
    by (simp add: length_combinations)
  from a b c show ?thesis by blast
qed

lemma failing_estimator_search:
  "grid_search_sarima failing_estimator [(''2014-01'', 100)] (0,2) (0,0) (0,0) (0,0) (0,0) (0,0) 12 =
   Inr [\<lparr>order = (0, 0, 0), seasonal_order = (0, 0, 0, 12), AIC = 10, BIC = 20\<rparr>,
        \<lparr>order = (2, 0, 0), seasonal_order = (0, 0, 0, 12), AIC = 12, BIC = 20\<rparr>]"
  by (simp add: grid_search_sarima_def sort_values_AIC_def combinations_def values_of_def
      upto.simps try_fit_def failing_estimator_def)

theorem grid_search_drops_failed_fits_witness:
  "failing_estimator [(''2014-01'', 100)] (1, 0, 0) (0, 0, 0, 12) = None \<and>
   (1, 0, 0, 0, 0, 0) \<notin> params ` set
     [\<lparr>order = (0, 0, 0), seasonal_order = (0, 0, 0, 12), AIC = 10, BIC = 20\<rparr>,
      \<lparr>order = (2, 0, 0), seasonal_order = (0, 0, 0, 12), AIC = 12, BIC = 20\<rparr>] \<and>
   length [\<lparr>order = (0, 0, 0), seasonal_order = (0, 0, 0, 12), AIC = 10, BIC = 20\<rparr>,
      \<lparr>order = (2, 0, 0), seasonal_order = (0, 0, 0, 12), AIC = 12, BIC = 20\<rparr>]
     \<le> total_combinations (0,2) (0,0) (0,0) (0,0) (0,0) (0,0)"
proof -
  have f: "failing_estimator [(''2014-01'', 100)] (1, 0, 0) (0, 0, 0, 12) = None"
    by (simp add: failing_estimator_def)
  from grid_search_drops_failed_fits [OF failing_estimator_search] f
  show ?thesis by blast
qed

text \<open>
  Claim C1, as the code has it.  The returned rows are in ascending order of \<^verbatim>\<open>AIC\<close> and
  are exactly the successful fits; \<^verbatim>\<open>BIC\<close> and the parameters take no part in the order.
\<close>

theorem grid_search_sorted_by_AIC:
  assumes "grid_search_sarima est s pr dr qr Pr Dr Qr m = Inr rows"
  shows "sorted (map AIC rows) \<and>
         mset rows = mset (List.map_filter (try_fit est s m) (combinations pr dr qr Pr Dr Qr))"
  using grid_search_Inr [OF assms] by (simp add: sorted_sort_key)

theorem grid_search_sorted_by_AIC_witness:
  "sorted (map AIC
     [\<lparr>order = (0, 0, 0), seasonal_order = (0, 0, 0, 12), AIC = 10, BIC = 20\<rparr>,
      \<lparr>order = (2, 0, 0), seasonal_order = (0, 0, 0, 12), AIC = 12, BIC = 20\<rparr>])"
  using grid_search_sorted_by_AIC [OF failing_estimator_search] by blast

text \<open>
  Claim C1 as stated fails: two fits with the same \<^verbatim>\<open>AIC\<close> are returned with the larger
  \<^verbatim>\<open>BIC\<close> first.
\<close>

theorem grid_search_ties_keep_loop_order:
  "grid_search_sarima tied_estimator [(''2014-01'', 100)] (0,1) (0,0) (0,0) (0,0) (0,0) (0,0) 12 =
     Inr [\<lparr>order = (0, 0, 0), seasonal_order = (0, 0, 0, 12), AIC = 10, BIC = 7\<rparr>,
          \<lparr>order = (1, 0, 0), seasonal_order = (0, 0, 0, 12), AIC = 10, BIC = 5\<rparr>] \<and>
   \<not> sorted_wrt spec_rank_le
     [\<lparr>order = (0, 0, 0), seasonal_order = (0, 0, 0, 12), AIC = 10, BIC = 7\<rparr>,
      \<lparr>order = (1, 0, 0), seasonal_order = (0, 0, 0, 12), AIC = 10, BIC = 5\<rparr>]"
  by (simp add: grid_search_sarima_def sort_values_AIC_def combinations_def values_of_def
      upto.simps try_fit_def tied_estimator_def spec_rank_le_def)

section \<open>Properties of the evaluation script\<close>

lemma slice_split: "slice_to xs k @ slice_from xs k = xs"
  by (simp add: slice_to_def slice_from_def)

lemma train_test_split_pos:
  "0 < h \<Longrightarrow> train_test_split s h = (take (length s - nat h) s, drop (length s - nat h) s)"
  by (auto simp: train_test_split_def slice_to_def slice_from_def slice_bound_def max_def nat_diff_distrib)

lemma fabs_cases: "fabs c = NaN \<or> non_negative (fabs c)"
  by (cases c) simp_all

lemma fabs_NaN_iff: "fabs c = NaN \<longleftrightarrow> c = NaN"
  by (cases c) simp_all

lemma non_negative_fadd: "non_negative c \<Longrightarrow> non_negative d \<Longrightarrow> non_negative (fadd c d)"
  by (cases c; cases d) simp_all

lemma non_negative_foldl:
  "non_negative acc \<Longrightarrow> \<forall>c \<in> set cs. non_negative c \<Longrightarrow> non_negative (foldl fadd acc cs)"
  by (induction cs arbitrary: acc) (simp_all add: non_negative_fadd)

lemma non_negative_fscale: "non_negative c \<Longrightarrow> 0 < k \<Longrightarrow> non_negative (fscale c k)"
  by (cases c) simp_all

lemma fadd_PInf: "non_negative c \<Longrightarrow> fadd PInf c = PInf \<and> fadd c PInf = PInf"
  by (cases c) simp_all

lemma foldl_fadd_PInf:
  "\<forall>c \<in> set cs. non_negative c \<Longrightarrow> foldl fadd PInf cs = PInf"
  by (induction cs) (simp_all add: fadd_PInf)

lemma foldl_fadd_has_PInf:
  "non_negative acc \<Longrightarrow> \<forall>c \<in> set cs. non_negative c \<Longrightarrow> PInf \<in> set cs \<Longrightarrow>
     foldl fadd acc cs = PInf"
proof (induction cs arbitrary: acc)
  case Nil
  then show ?case by simp
next
  case (Cons c cs)
  show ?case
  proof (cases "c = PInf")
    case True
    with Cons.prems show ?thesis by (simp add: fadd_PInf foldl_fadd_PInf)
  next
    case False
    with Cons.prems have "PInf \<in> set cs" by simp
    moreover have "non_negative (fadd acc c)" using Cons.prems by (simp add: non_negative_fadd)
    ultimately show ?thesis using Cons.IH Cons.prems by simp
  qed
qed

lemma series_mean_abs_cells:
  assumes "\<forall>c \<in> set cells. c = NaN \<or> non_negative c"
  shows "(series_mean cells = NaN \<longleftrightarrow> (\<forall>c \<in> set cells. c = NaN)) \<and>
         (series_mean cells \<noteq> NaN \<longrightarrow> non_negative (series_mean cells)) \<and>
         (PInf \<in> set cells \<longrightarrow> series_mean cells = PInf)"
proof -
  let ?kept = "filter (\<lambda>c. c \<noteq> NaN) cells"
  have kept: "\<forall>c \<in> set ?kept. non_negative c" using assms by auto
  have empty: "?kept = [] \<longleftrightarrow> (\<forall>c \<in> set cells. c = NaN)"
    by (simp add: filter_empty_conv)
  show ?thesis
  proof (cases "?kept = []")
    case True
    then have "series_mean cells = NaN" by (simp add: series_mean_def)
    moreover from True empty have "PInf \<notin> set cells" by auto
    ultimately show ?thesis using True empty by simp
  next
    case False
    then have n: "0 < 1 / real (length ?kept)" by simp
    have sm: "series_mean cells = fscale (foldl fadd (Fin 0) ?kept) (1 / real (length ?kept))"
      using False by (simp add: series_mean_def Let_def)
    have nn: "non_negative (series_mean cells)"
      unfolding sm by (intro non_negative_fscale non_negative_foldl kept n) simp
    then have notnan: "series_mean cells \<noteq> NaN" by auto
    have "series_mean cells = PInf" if "PInf \<in> set cells"
    proof -
      from that have "PInf \<in> set ?kept" by simp
      then have "foldl fadd (Fin 0) ?kept = PInf"
        using foldl_fadd_has_PInf [of "Fin 0" ?kept] kept by simp
      then show ?thesis unfolding sm using n by simp
    qed
    with nn notnan False empty show ?thesis by blast
  qed
qed

lemma ape_cells_shape: "\<forall>c \<in> set (ape_cells ys ps). c = NaN \<or> non_negative c"
  using fabs_cases by (auto simp: ape_cells_def)

lemma fabs_cell_div_NaN: "fabs (cell_div (a - p) a) = NaN \<longleftrightarrow> a = 0 \<and> p = 0"
  by (auto simp: cell_div_def fabs_NaN_iff)

lemma fabs_cell_div_PInf: "a = 0 \<Longrightarrow> p \<noteq> 0 \<Longrightarrow> fabs (cell_div (a - p) a) = PInf"
  by (auto simp: cell_div_def)

lemma mape_expr_cells: "mape_expr ys ps = fscale (series_mean (ape_cells ys ps)) 100"
  by (simp add: mape_expr_def)

lemma mape_non_negative_iff:
  "non_negative (mape_expr ys ps) \<longleftrightarrow> (\<exists>(a, p) \<in> set (zip ys ps). a \<noteq> 0 \<or> p \<noteq> 0)"
proof -
  let ?m = "series_mean (ape_cells ys ps)"
  note sm = series_mean_abs_cells [OF ape_cells_shape, of ys ps]
  have allnan: "(\<forall>c \<in> set (ape_cells ys ps). c = NaN) \<longleftrightarrow> (\<forall>(a, p) \<in> set (zip ys ps). a = 0 \<and> p = 0)"
    by (auto simp: ape_cells_def fabs_cell_div_NaN)
  show ?thesis
  proof (cases "?m = NaN")
    case True
    with sm allnan show ?thesis by (auto simp: mape_expr_cells)
  next
    case False
    with sm have "non_negative ?m" by blast
    then have "non_negative (mape_expr ys ps)"
      by (simp add: mape_expr_cells non_negative_fscale)
    moreover from False sm allnan have "\<exists>(a, p) \<in> set (zip ys ps). a \<noteq> 0 \<or> p \<noteq> 0"
      by auto
    ultimately show ?thesis by simp
  qed
qed

lemma mape_PInf:
  assumes "length ys = length ps" "i < length ys" "ys ! i = 0" "ps ! i \<noteq> 0"
  shows "mape_expr ys ps = PInf"
proof -
  have "fabs (cell_div (ys ! i - ps ! i) (ys ! i)) \<in> set (ape_cells ys ps)"
    unfolding ape_cells_def using assms(1,2)
    by (auto simp: set_zip intro!: image_eqI [where x = "(ys ! i, ps ! i)"])
  then have "PInf \<in> set (ape_cells ys ps)"
    using fabs_cell_div_PInf [OF assms(3,4)] by simp
  then have "series_mean (ape_cells ys ps) = PInf"
    using series_mean_abs_cells [OF ape_cells_shape, of ys ps] by blast
  then show ?thesis by (simp add: mape_expr_cells)
qed


lemma evaluation_metrics_Inr:
  assumes "length ys = length ps" and "ys \<noteq> []"
  shows "evaluation_metrics ys ps =
     Inr \<lparr>mae = sum_list (map2 (\<lambda>a p. \<bar>a - p\<bar>) ys ps) / real (length ys),
          rmse = sqrt (sum_list (map2 (\<lambda>a p. (a - p)\<^sup>2) ys ps) / real (length ys)),
          mape = mape_expr ys ps\<rparr>"
  using assms
  by (simp add: evaluation_metrics_def mean_absolute_error_def mean_squared_error_def check_targets_def)

lemma model_evaluation_fitted:
  assumes "SARIMAX_fit eng (fst (train_test_split s h)) SARIMA_ORDER SARIMA_SEASONAL_ORDER = Inr results"
    and "snd (train_test_split s h) \<noteq> []"
  shows "model_evaluation eng s h =
     evaluation_metrics (map snd (snd (train_test_split s h)))
       (map (predict eng results)
          [length (fst (train_test_split s h))..<
           length (fst (train_test_split s h)) + length (snd (train_test_split s h))])"
  using assms by (simp add: model_evaluation_def Let_def)

lemma model_evaluation_fit_fails:
  "SARIMAX_fit eng (fst (train_test_split s h)) SARIMA_ORDER SARIMA_SEASONAL_ORDER = Inl e \<Longrightarrow>
     model_evaluation eng s h = Inl e"
  by (simp add: model_evaluation_def Let_def)

text \<open>
  Claim C3, as the code has it.  A zero actual in the test window does not make the
  evaluation fail: whenever the fit on the train split succeeds, the run returns its
  metrics, and the MAPE is plus infinity as soon as a month with actual value zero has
  a nonzero prediction.
\<close>

theorem evaluation_zero_actual_returns_metrics:
  assumes "SARIMAX_fit eng (fst (train_test_split s h)) SARIMA_ORDER SARIMA_SEASONAL_ORDER = Inr results"
    and "i < length (snd (train_test_split s h))"
    and "snd (snd (train_test_split s h) ! i) = 0"
  shows "\<exists>m. model_evaluation eng s h = Inr m \<and>
           (predict eng results (length (fst (train_test_split s h)) + i) \<noteq> 0 \<longrightarrow> mape m = PInf)"
proof -
  let ?train = "fst (train_test_split s h)" and ?test = "snd (train_test_split s h)"
  let ?ys = "map snd ?test"
  let ?ps = "map (predict eng results) [length ?train..<length ?train + length ?test]"
  have ne: "?test \<noteq> []" using assms(2) by auto
  have len: "length ?ys = length ?ps" by simp
  have ys_ne: "?ys \<noteq> []" using ne by simp
  have ev: "model_evaluation eng s h = evaluation_metrics ?ys ?ps"
    using assms(1) ne by (rule model_evaluation_fitted)
  note m = evaluation_metrics_Inr [OF len ys_ne]
  have inf: "mape_expr ?ys ?ps = PInf"
    if "predict eng results (length ?train + i) \<noteq> 0"
  proof (rule mape_PInf [OF len])
    show "i < length ?ys" using assms(2) by simp
    show "?ys ! i = 0" using assms(2,3) by simp
    show "?ps ! i \<noteq> 0" using assms(2) that by simp
  qed
  show ?thesis
    unfolding ev m using inf by simp
qed

lemma constant_engine_fits:
  "SARIMAX_fit constant_engine s SARIMA_ORDER SARIMA_SEASONAL_ORDER =
     Inr \<lparr>endog = s, model_order = SARIMA_ORDER, model_seasonal_order = SARIMA_SEASONAL_ORDER,
          aic = 10, bic = 20\<rparr>"
  by (simp add: SARIMAX_fit_def constant_engine_def)

lemma split_sales_13:
  "train_test_split sales_13 TEST_SIZE =
     ([(''2014-01'', 5)],
      [(''2014-02'', 1), (''2014-03'', 1), (''2014-04'', 1),
      (''2014-05'', 1), (''2014-06'', 1), (''2014-07'', 1), (''2014-08'', 1),
      (''2014-09'', 1), (''2014-10'', 1), (''2014-11'', 1), (''2014-12'', 1),
      (''2015-01'', 0)])"
  by (simp add: train_test_split_def slice_to_def slice_from_def slice_bound_def sales_13_def TEST_SIZE_def)

theorem evaluation_zero_actual_returns_metrics_witness:
  "\<exists>m. model_evaluation constant_engine sales_13 TEST_SIZE = Inr m \<and> mape m = PInf"
proof -
  have i: "(11::nat) < length (snd (train_test_split sales_13 TEST_SIZE))"
    by (simp add: split_sales_13)
  have z: "snd (snd (train_test_split sales_13 TEST_SIZE) ! 11) = 0"
    by (simp add: split_sales_13)
  have p: "predict constant_engine \<lparr>endog = fst (train_test_split sales_13 TEST_SIZE),
      model_order = SARIMA_ORDER, model_seasonal_order = SARIMA_SEASONAL_ORDER,
      aic = 10, bic = 20\<rparr> (length (fst (train_test_split sales_13 TEST_SIZE)) + 11) \<noteq> 0"
    by (simp add: constant_engine_def)
  from evaluation_zero_actual_returns_metrics [OF constant_engine_fits i z] p
  show ?thesis by blast
qed

lemma predict_constant_engine: "predict constant_engine results t = 1"
  by (simp add: constant_engine_def)

lemma evaluation_sales_13:
  "model_evaluation constant_engine sales_13 TEST_SIZE =
     evaluation_metrics [1, 1, 1, 1, 1, 1, 1, 1, 1, 1, 1, 0] [1, 1, 1, 1, 1, 1, 1, 1, 1, 1, 1, 1]"
proof -
  have "snd (train_test_split sales_13 TEST_SIZE) \<noteq> []"
    by (simp add: split_sales_13)
  from model_evaluation_fitted [OF constant_engine_fits this]
  show ?thesis
    by (simp add: split_sales_13 predict_constant_engine)
qed

text \<open>
  Claim C3 as stated fails: the last month of the test window has actual value zero, and
  the run returns metrics, with an infinite MAPE, instead of raising.
\<close>

theorem evaluation_zero_actual_is_not_an_error:
  "snd (snd (train_test_split sales_13 TEST_SIZE) ! 11) = 0 \<and>
   model_evaluation constant_engine sales_13 TEST_SIZE =
     Inr \<lparr>mae = 1 / 12, rmse = sqrt (1 / 12), mape = PInf\<rparr>"
proof -
  have "evaluation_metrics [1, 1, 1, 1, 1, 1, 1, 1, 1, 1, 1, 0] [1, 1, 1, 1, 1, 1, 1, 1, 1, 1, 1, 1] =
      Inr \<lparr>mae = 1 / 12, rmse = sqrt (1 / 12), mape = PInf\<rparr>"
    by (simp add: evaluation_metrics_def mean_absolute_error_def mean_squared_error_def
        check_targets_def mape_expr_def ape_cells_def series_mean_def cell_div_def)
  then show ?thesis
    by (simp add: evaluation_sales_13 split_sales_13)
qed


lemma split_lengths_pos:
  assumes "0 < h"
  shows "length (snd (train_test_split s h)) = min (nat h) (length s)"
  using assms by (auto simp: train_test_split_pos)

section \<open>Properties of the float64 metrics\<close>

lemma pow2_pos: "0 < pow2 e"
  by (simp add: pow2_def)

lemma round_half_even_nonneg: "0 \<le> t \<Longrightarrow> 0 \<le> round_half_even t"
  by (auto simp: round_half_even_def Let_def)

lemma round_half_even_near: "\<bar>real_of_int (round_half_even t) - t\<bar> \<le> 1 / 2"
  unfolding round_half_even_def Let_def by (auto; linarith)

lemma round64_not_NaN: "round64 x \<noteq> NaN"
  by (simp add: round64_def Let_def)

text \<open>A rounded result is within half a spacing of the exact one.\<close>

lemma round64_near:
  assumes "round64 x = Fin y"
  shows "\<bar>y - x\<bar> \<le> pow2 (binade \<bar>x\<bar> - 52) / 2"
proof (cases "x = 0")
  case True
  with assms have "y = 0" by (simp add: round64_def)
  with True show ?thesis using pow2_pos [of "binade \<bar>x\<bar> - 52"] by simp
next
  case False
  let ?q = "pow2 (binade \<bar>x\<bar> - 52)"
  have q: "0 < ?q" by (rule pow2_pos)
  from assms False have y: "y = real_of_int (round_half_even (x / ?q)) * ?q"
    by (simp add: round64_def Let_def split: if_splits)
  have "\<bar>y - x\<bar> = \<bar>real_of_int (round_half_even (x / ?q)) - x / ?q\<bar> * ?q"
  proof -
    have "y - x = (real_of_int (round_half_even (x / ?q)) - x / ?q) * ?q"
      using q by (simp add: y algebra_simps)
    then show ?thesis using q by (simp add: abs_mult)
  qed
  also have "\<dots> \<le> (1 / 2) * ?q"
    using round_half_even_near [of "x / ?q"] q by (intro mult_right_mono) simp_all
  finally show ?thesis by simp
qed

lemma round64_nonneg: "0 \<le> x \<Longrightarrow> non_negative (round64 x)"
proof -
  assume x: "0 \<le> x"
  let ?q = "pow2 (binade \<bar>x\<bar> - 52)"
  have "0 \<le> x / ?q" using x pow2_pos [of "binade \<bar>x\<bar> - 52"] by simp
  then have "0 \<le> real_of_int (round_half_even (x / ?q)) * ?q"
    using round_half_even_nonneg pow2_pos [of "binade \<bar>x\<bar> - 52"] by simp
  moreover have "0 < pow2 1024" by (rule pow2_pos)
  ultimately show ?thesis
    by (simp add: round64_def Let_def)
qed

lemma non_negative_add64: "non_negative c \<Longrightarrow> non_negative d \<Longrightarrow> non_negative (add64 c d)"
  by (cases c; cases d) (simp_all add: round64_nonneg)

lemma non_negative_foldl_add64:
  "non_negative acc \<Longrightarrow> \<forall>c \<in> set cs. non_negative c \<Longrightarrow> non_negative (foldl add64 acc cs)"
  by (induction cs arbitrary: acc) (simp_all add: non_negative_add64)

lemma non_negative_map2_add64:
  "\<forall>c \<in> set r. non_negative c \<Longrightarrow> \<forall>c \<in> set ys. non_negative c \<Longrightarrow>
     \<forall>c \<in> set (map2 add64 r ys). non_negative c"
proof (clarsimp)
  fix a b
  assume r: "\<forall>c \<in> set r. non_negative c" and ys: "\<forall>c \<in> set ys. non_negative c"
    and m: "(a, b) \<in> set (zip r ys)"
  from m have "a \<in> set r" "b \<in> set ys"
    by (auto dest: set_zip_leftD set_zip_rightD)
  with r ys show "non_negative (add64 a b)"
    by (simp add: non_negative_add64)
qed

lemma lanes_loop_non_negative:
  "length r = 8 \<Longrightarrow> \<forall>c \<in> set r. non_negative c \<Longrightarrow> \<forall>c \<in> set xs. non_negative c \<Longrightarrow>
     lanes_loop r xs = (r', rest) \<Longrightarrow>
     length r' = 8 \<and> (\<forall>c \<in> set r'. non_negative c) \<and> (\<forall>c \<in> set rest. non_negative c)"
proof (induction r xs rule: lanes_loop.induct)
  case (1 r xs)
  show ?case
  proof (cases "8 \<le> length xs")
    case True
    have l: "length (map2 add64 r (take 8 xs)) = 8"
      using True "1.prems"(1) by simp
    have a: "\<forall>c \<in> set (map2 add64 r (take 8 xs)). non_negative c"
      using "1.prems"(2,3) by (intro non_negative_map2_add64) (auto dest: in_set_takeD)
    have b: "\<forall>c \<in> set (drop 8 xs). non_negative c"
      using "1.prems"(3) by (auto dest: in_set_dropD)
    have "lanes_loop (map2 add64 r (take 8 xs)) (drop 8 xs) = (r', rest)"
      using "1.prems"(4) True by (subst (asm) lanes_loop.simps) simp
    with "1.IH" [OF True l a b] show ?thesis by simp
  next
    case False
    then have "(r', rest) = (r, xs)"
      using "1.prems"(4) by (subst (asm) lanes_loop.simps) simp
    with "1.prems" show ?thesis by simp
  qed
qed

lemma non_negative_sum_lanes:
  assumes "length r = 8" and "\<forall>c \<in> set r. non_negative c"
  shows "non_negative (sum_lanes r)"
proof -
  have "non_negative (r ! i)" if "i < 8" for i
    using assms that by simp
  then show ?thesis
    unfolding sum_lanes_def by (intro non_negative_add64) simp_all
qed

lemma non_negative_pairwise_sum:
  "\<forall>c \<in> set xs. non_negative c \<Longrightarrow> non_negative (pairwise_sum xs)"
proof (induction xs rule: pairwise_sum.induct)
  case (1 xs)
  consider "length xs < 8" | "8 \<le> length xs" "length xs \<le> 128" | "128 < length xs"
    by linarith
  then show ?case
  proof cases
    case 1
    then have "pairwise_sum xs = foldl add64 (Fin 0) xs"
      by (subst pairwise_sum.simps) simp
    with "1.prems" show ?thesis by (simp add: non_negative_foldl_add64)
  next
    case 2
    obtain r rest where lr: "lanes_loop (take 8 xs) (drop 8 xs) = (r, rest)"
      by (cases "lanes_loop (take 8 xs) (drop 8 xs)")
    have "length (take 8 xs) = 8" using 2 by simp
    moreover have "\<forall>c \<in> set (take 8 xs). non_negative c"
      using "1.prems" by (auto dest: in_set_takeD)
    moreover have "\<forall>c \<in> set (drop 8 xs). non_negative c"
      using "1.prems" by (auto dest: in_set_dropD)
    ultimately have p: "length r = 8 \<and> (\<forall>c \<in> set r. non_negative c) \<and> (\<forall>c \<in> set rest. non_negative c)"
      using lr by (rule lanes_loop_non_negative)
    have "pairwise_sum xs = foldl add64 (sum_lanes r) rest"
      using 2 lr by (subst pairwise_sum.simps) simp
    with p show ?thesis
      by (simp add: non_negative_foldl_add64 non_negative_sum_lanes)
  next
    case 3
    let ?k = "length xs div 2 - length xs div 2 mod 8"
    have c: "\<not> length xs < 8" "\<not> length xs \<le> 128" using 3 by simp_all
    have "non_negative (pairwise_sum (take ?k xs))"
      using "1.IH"(1) [OF c] "1.prems" by (auto dest: in_set_takeD)
    moreover have "non_negative (pairwise_sum (drop ?k xs))"
      using "1.IH"(2) [OF c] "1.prems" by (auto dest: in_set_dropD)
    moreover have "pairwise_sum xs = add64 (pairwise_sum (take ?k xs)) (pairwise_sum (drop ?k xs))"
      using c by (subst pairwise_sum.simps) simp
    ultimately show ?thesis by (simp add: non_negative_add64)
  qed
qed

lemma non_negative_np_sum:
  "\<forall>c \<in> set xs. non_negative c \<Longrightarrow> non_negative (np_sum xs)"
  by (simp add: np_sum_def non_negative_add64 non_negative_pairwise_sum)

lemma non_negative_div64: "non_negative c \<Longrightarrow> non_negative (div64 c n)"
  by (cases c) (simp_all add: round64_nonneg)

lemma non_negative_fabs_round64: "non_negative (fabs (round64 x))"
  by (cases "round64 x") (simp_all add: round64_not_NaN)

lemma non_negative_square64_round64: "non_negative (square64 (round64 x))"
  by (cases "round64 x") (simp_all add: round64_not_NaN round64_nonneg)

lemma isqrt_nonneg: "0 \<le> isqrt n"
proof (induction n rule: isqrt.induct)
  case (1 n)
  show ?case
  proof (cases "n < 2")
    case True
    then show ?thesis by (subst isqrt.simps) simp
  next
    case False
    with "1.IH" show ?thesis by (subst isqrt.simps) (simp add: Let_def)
  qed
qed

lemma sqrt_round_nonneg: "0 \<le> sqrt_round a"
proof -
  have "0 \<le> isqrt n div 2" for n
    using isqrt_nonneg [of n] by (simp add: pos_imp_zdiv_nonneg_iff)
  then show ?thesis
    using pow2_pos [of "binade_full a div 2 - 52"]
    by (auto simp: sqrt_round_def Let_def intro!: mult_nonneg_nonneg add_nonneg_nonneg)
qed

lemma non_negative_sqrt64: "non_negative c \<Longrightarrow> non_negative (sqrt64 c)"
  by (cases c) (simp_all add: sqrt_round_nonneg)

lemma mean_absolute_error_f64_nonneg:
  "mean_absolute_error_f64 ys ps = Inr e \<Longrightarrow> non_negative e"
  by (auto simp: mean_absolute_error_f64_def non_negative_fabs_round64
      intro!: non_negative_div64 non_negative_np_sum split: option.splits)

lemma rmse_f64_nonneg:
  "rmse_f64 ys ps = Inr r \<Longrightarrow> non_negative r"
  by (auto simp: rmse_f64_def mean_squared_error_f64_def non_negative_square64_round64
      intro!: non_negative_sqrt64 non_negative_div64 non_negative_np_sum
      split: option.splits sum.splits)

lemma isqrt_correct: "0 \<le> n \<Longrightarrow> (isqrt n)\<^sup>2 \<le> n \<and> n < (isqrt n + 1)\<^sup>2"
proof (induction n rule: isqrt.induct)
  case (1 n)
  show ?case
  proof (cases "n < 2")
    case True
    with "1.prems" have "n = 0 \<or> n = 1" by auto
    then show ?thesis by (subst isqrt.simps, subst (2) isqrt.simps) auto
  next
    case False
    let ?s = "isqrt (n div 4)"
    have ih: "?s\<^sup>2 \<le> n div 4 \<and> n div 4 < (?s + 1)\<^sup>2"
      using "1.IH" [OF False] "1.prems" by simp
    have lo: "(2 * ?s)\<^sup>2 \<le> n"
    proof -
      have "(2 * ?s)\<^sup>2 = 4 * ?s\<^sup>2" by (simp add: power2_eq_square)
      also have "\<dots> \<le> 4 * (n div 4)" using ih by simp
      also have "\<dots> \<le> n" by simp
      finally show ?thesis .
    qed
    have hi: "n < (2 * ?s + 2)\<^sup>2"
    proof -
      have "n div 4 + 1 \<le> (?s + 1)\<^sup>2" using ih by simp
      then have "4 * (n div 4) + 4 \<le> 4 * (?s + 1)\<^sup>2" by simp
      moreover have "n < 4 * (n div 4) + 4" by presburger
      moreover have "4 * (?s + 1)\<^sup>2 = (2 * ?s + 2)\<^sup>2" by (simp add: power2_eq_square algebra_simps)
      ultimately show ?thesis by linarith
    qed
    have eq: "isqrt n = (if (2 * ?s + 1) * (2 * ?s + 1) \<le> n then 2 * ?s + 1 else 2 * ?s)"
      using False by (subst isqrt.simps) (simp add: Let_def)
    show ?thesis
    proof (cases "(2 * ?s + 1) * (2 * ?s + 1) \<le> n")
      case True
      then show ?thesis using hi eq by (simp add: power2_eq_square algebra_simps)
    next
      case False
      then show ?thesis using lo eq by (simp add: power2_eq_square algebra_simps)
    qed
  qed
qed

lemma isqrt_unique:
  assumes "0 \<le> k" and "k\<^sup>2 \<le> n" and "n < (k + 1)\<^sup>2"
  shows "isqrt n = k"
proof -
  have n: "0 \<le> n" using assms(2) zero_le_power2 [of k] by linarith
  note c = isqrt_correct [OF n]
  have i: "0 \<le> isqrt n" by (rule isqrt_nonneg)
  have "\<not> isqrt n < k"
  proof
    assume "isqrt n < k"
    then have "isqrt n + 1 \<le> k" by simp
    then have "(isqrt n + 1)\<^sup>2 \<le> k\<^sup>2" using i by (intro power_mono) simp_all
    with c assms(2) show False by linarith
  qed
  moreover have "\<not> k < isqrt n"
  proof
    assume "k < isqrt n"
    then have "k + 1 \<le> isqrt n" by simp
    then have "(k + 1)\<^sup>2 \<le> (isqrt n)\<^sup>2" using assms(1) by (intro power_mono) simp_all
    with c assms(3) show False by linarith
  qed
  ultimately show ?thesis by linarith
qed


lemma exponent_down_numeral:
  "exponent_down (numeral k) x =
     (if x < 1 then exponent_down (pred_numeral k) (2 * x) - 1 else 0)"
  by (simp add: numeral_eq_Suc)

lemma exponent_up_numeral:
  "exponent_up (numeral k) x =
     (if 2 \<le> x then exponent_up (pred_numeral k) (x / 2) + 1 else 0)"
  by (simp add: numeral_eq_Suc)

lemmas round64_eval = round64_def Let_def binade_def exponent_down_numeral exponent_up_numeral
  pow2_def round_half_even_def

lemma mae_tenth:
  "mean_absolute_error_f64 [tenth, tenth, tenth] [0, 0, 0] =
     Inr (Fin (7205759403792795 / 72057594037927936))"
  by (simp add: mean_absolute_error_f64_def check_targets_def np_sum_def pairwise_sum.simps
      tenth_def round64_eval)

lemma mse_tenth:
  "mean_squared_error_f64 [tenth, tenth, tenth] [0, 0, 0] =
     Inr (Fin (1441151880758559 / 144115188075855872))"
  by (simp add: mean_squared_error_f64_def check_targets_def np_sum_def pairwise_sum.simps
      tenth_def round64_eval)

lemma isqrt_tenth: "isqrt 207691874341393145493472514408448 = 14411518807585588"
  by (rule isqrt_unique) simp_all

lemma sqrt_tenth: "sqrt_round (1441151880758559 / 144115188075855872) = tenth"
  by (simp add: sqrt_round_def Let_def binade_full_def exponent_down_numeral pow2_def
      isqrt_tenth tenth_def)

lemma rmse_tenth: "rmse_f64 [tenth, tenth, tenth] [0, 0, 0] = Inr (Fin tenth)"
  by (simp add: rmse_f64_def mse_tenth sqrt_tenth)


lemma mae_zero: "mean_absolute_error_f64 [0] [0] = Inr (Fin 0)"
  by (simp add: mean_absolute_error_f64_def check_targets_def np_sum_def pairwise_sum.simps
      round64_def)

lemma rmse_zero: "rmse_f64 [0] [0] = Inr (Fin 0)"
  by (simp add: rmse_f64_def mean_squared_error_f64_def check_targets_def np_sum_def
      pairwise_sum.simps round64_def sqrt_round_def)

text \<open>
  Claim C7, as the code has it.  Whenever the evaluator computes them (the sequences have
  equal length and are not empty), the float64 MAE and RMSE are non-negative, possibly
  infinite.  No order between RMSE and MAE is stated: every float64 operation rounds.
  The MAPE is non-negative (possibly infinite) exactly when some month has a nonzero
  actual value or a nonzero prediction; otherwise it is \<open>NaN\<close>.
\<close>

theorem metrics_are_not_negative:
  assumes "mean_absolute_error_f64 actual predicted = Inr e"
    and "rmse_f64 actual predicted = Inr r"
  shows "non_negative e \<and> non_negative r \<and>
         (non_negative (mape_expr actual predicted) \<longleftrightarrow>
            (\<exists>(a, p) \<in> set (zip actual predicted). a \<noteq> 0 \<or> p \<noteq> 0)) \<and>
         (\<not> non_negative (mape_expr actual predicted) \<longrightarrow> mape_expr actual predicted = NaN)"
proof -
  have a: "non_negative e"
    using assms(1) by (rule mean_absolute_error_f64_nonneg)
  have b: "non_negative r"
    using assms(2) by (rule rmse_f64_nonneg)
  have c: "non_negative (mape_expr actual predicted) \<longleftrightarrow>
            (\<exists>(a, p) \<in> set (zip actual predicted). a \<noteq> 0 \<or> p \<noteq> 0)"
    by (rule mape_non_negative_iff)
  have d: "\<not> non_negative (mape_expr actual predicted) \<longrightarrow> mape_expr actual predicted = NaN"
  proof
    assume n: "\<not> non_negative (mape_expr actual predicted)"
    note sm = series_mean_abs_cells [OF ape_cells_shape, of actual predicted]
    have "series_mean (ape_cells actual predicted) = NaN"
    proof (rule ccontr)
      assume "series_mean (ape_cells actual predicted) \<noteq> NaN"
      with sm have "non_negative (series_mean (ape_cells actual predicted))" by blast
      then have "non_negative (mape_expr actual predicted)"
        by (simp add: mape_expr_cells non_negative_fscale)
      with n show False by simp
    qed
    then show "mape_expr actual predicted = NaN" by (simp add: mape_expr_cells)
  qed
  from a b c d show ?thesis by blast
qed

theorem metrics_are_not_negative_witness:
  "non_negative (Fin (7205759403792795 / 72057594037927936)) \<and> non_negative (Fin tenth) \<and>
   non_negative (mape_expr [tenth, tenth, tenth] [0, 0, 0])"
proof -
  note th = metrics_are_not_negative [OF mae_tenth rmse_tenth]
  note a = th [THEN conjunct1]
  note b = th [THEN conjunct2, THEN conjunct1]
  note c = th [THEN conjunct2, THEN conjunct2, THEN conjunct1]
  have z: "\<exists>(a, p) \<in> set (zip [tenth, tenth, tenth] [0, 0, 0]). a \<noteq> 0 \<or> p \<noteq> 0"
    by (simp add: tenth_def)
  have m: "non_negative (mape_expr [tenth, tenth, tenth] [0, 0, 0])"
    using c z by (rule iffD2)
  from a b m show ?thesis by (intro conjI)
qed

text \<open>
  Claim C7 as stated fails twice.  For one month with actual value and prediction both
  zero, MAE and RMSE are zero and the MAPE is \<open>NaN\<close>, which is not \<open>\<ge> 0\<close>.  For three months
  with actual value \<open>0.1\<close> and prediction \<open>0\<close>, the sum of the errors rounds up, the MAE is
  the float64 value after \<open>0.1\<close>, and the RMSE, which is \<open>0.1\<close>, is below it.
\<close>

theorem mape_is_nan_and_rmse_is_below_mae:
  "mean_absolute_error_f64 [0] [0] = Inr (Fin 0) \<and>
   rmse_f64 [0] [0] = Inr (Fin 0) \<and>
   mape_expr [0] [0] = NaN \<and>
   \<not> non_negative (mape_expr [0] [0]) \<and>
   mean_absolute_error_f64 [tenth, tenth, tenth] [0, 0, 0] =
     Inr (Fin (7205759403792795 / 72057594037927936)) \<and>
   rmse_f64 [tenth, tenth, tenth] [0, 0, 0] = Inr (Fin tenth) \<and>
   \<not> fle (Fin (7205759403792795 / 72057594037927936)) (Fin tenth)"
proof -
  have n: "mape_expr [0] [0] = NaN"
    by (simp add: mape_expr_def ape_cells_def series_mean_def cell_div_def)
  have l: "\<not> fle (Fin (7205759403792795 / 72057594037927936)) (Fin tenth)"
    by (simp add: tenth_def)
  from mae_zero rmse_zero n l mae_tenth rmse_tenth show ?thesis by simp
qed



section \<open>Properties of the whole evaluation script\<close>

lemma model_evaluation_script_empty_train:
  assumes "fst (train_test_split s h) = []"
  shows "model_evaluation_script eng s h =
     (case SARIMAX_fit eng [] SARIMA_ORDER SARIMA_SEASONAL_ORDER of
        Inl e \<Rightarrow> Inl e
      | Inr results \<Rightarrow> Inl IndexError)"
proof (cases "SARIMAX_fit eng [] SARIMA_ORDER SARIMA_SEASONAL_ORDER")
  case (Inl e)
  with assms show ?thesis
    by (simp add: model_evaluation_script_def Let_def)
next
  case (Inr results)
  let ?test = "snd (train_test_split s h)"
  show ?thesis
  proof (cases "?test = []")
    case True
    with Inr assms show ?thesis
      by (simp add: model_evaluation_script_def Let_def)
  next
    case False
    let ?ys = "map snd ?test"
    let ?ps = "map (predict eng results) [0..<length ?test]"
    have len: "length ?ys = length ?ps" by simp
    have ne: "?ys \<noteq> []" using False by simp
    note m = evaluation_metrics_Inr [OF len ne]
    have "model_evaluation_script eng s h =
        (case evaluation_metrics ?ys ?ps of
           Inl e \<Rightarrow> Inl e
         | Inr m \<Rightarrow> (case plot_model_evaluation [] ?test ?ps m of Inl e \<Rightarrow> Inl e | Inr u \<Rightarrow> Inr m))"
      using Inr assms False by (simp add: model_evaluation_script_def Let_def)
    also have "\<dots> = Inl IndexError"
      unfolding m by (simp add: plot_model_evaluation_def)
    finally show ?thesis using Inr by simp
  qed
qed

text \<open>
  Claim C6, as the code has it.  For a positive test size \<open>h\<close> and a series of \<open>n\<close> months,
  train is the series without its last \<open>h\<close> months and test is its last \<open>min h n\<close> months;
  the two are disjoint and together are the series.  With an empty train split the
  script fails, though not by a check of its own: with the error of the engine's fit on
  the empty split, or, when that fit succeeds, with \<^verbatim>\<open>IndexError\<close>, raised at
  \<^verbatim>\<open>test.index[0]\<close> for the empty series and otherwise at \<^verbatim>\<open>train.index[-1]\<close> in the final
  plot, after the metrics were computed.
\<close>

theorem split_by_slices_and_empty_train_fails:
  assumes "0 < h"
  shows "train_test_split s h = (take (length s - nat h) s, drop (length s - nat h) s) \<and>
         fst (train_test_split s h) @ snd (train_test_split s h) = s \<and>
         length (snd (train_test_split s h)) = min (nat h) (length s) \<and>
         (fst (train_test_split s h) = [] \<longrightarrow>
            model_evaluation_script eng s h =
              (case SARIMAX_fit eng [] SARIMA_ORDER SARIMA_SEASONAL_ORDER of
                 Inl e \<Rightarrow> Inl e
               | Inr results \<Rightarrow> Inl IndexError))"
proof -
  have a: "train_test_split s h = (take (length s - nat h) s, drop (length s - nat h) s)"
    using assms by (rule train_test_split_pos)
  have b: "fst (train_test_split s h) @ snd (train_test_split s h) = s" by (simp add: a)
  have c: "length (snd (train_test_split s h)) = min (nat h) (length s)"
    using assms by (rule split_lengths_pos)
  from a b c model_evaluation_script_empty_train [of s h eng] show ?thesis by blast
qed

lemma split_sales_3:
  "train_test_split sales_3 TEST_SIZE = ([], sales_3)"
  by (simp add: train_test_split_def slice_to_def slice_from_def slice_bound_def sales_3_def TEST_SIZE_def)

theorem split_by_slices_and_empty_train_fails_witness:
  "train_test_split sales_13 TEST_SIZE = (take 1 sales_13, drop 1 sales_13) \<and>
   length (snd (train_test_split sales_13 TEST_SIZE)) = 12 \<and>
   fst (train_test_split sales_3 TEST_SIZE) = [] \<and>
   model_evaluation_script constant_engine sales_3 TEST_SIZE = Inl IndexError"
proof -
  have h: "0 < TEST_SIZE" by (simp add: TEST_SIZE_def)
  have l: "length sales_13 = 13" by (simp add: sales_13_def)
  have e: "fst (train_test_split sales_3 TEST_SIZE) = []"
    by (simp add: split_sales_3)
  from split_by_slices_and_empty_train_fails [OF h, of sales_13 constant_engine]
  have "train_test_split sales_13 TEST_SIZE = (take 1 sales_13, drop 1 sales_13) \<and>
   length (snd (train_test_split sales_13 TEST_SIZE)) = 12"
    by (simp add: l TEST_SIZE_def)
  moreover from split_by_slices_and_empty_train_fails [OF h, of sales_3 constant_engine] e
  have "model_evaluation_script constant_engine sales_3 TEST_SIZE = Inl IndexError"
    by (simp add: constant_engine_fits)
  ultimately show ?thesis using e by blast
qed

text \<open>
  Claim C6 as stated fails: for test size \<open>0\<close> the slice \<^verbatim>\<open>[:-0]\<close> is empty, so train is empty
  and test is the whole series; and the run, whose fit succeeds, ends with the
  \<^verbatim>\<open>IndexError\<close> of the plot.
\<close>

theorem holdout_zero_leaves_train_empty:
  "train_test_split sales_3 0 = ([], sales_3) \<and>
   model_evaluation_script constant_engine sales_3 0 = Inl IndexError"
proof -
  have s: "train_test_split sales_3 0 = ([], sales_3)"
    by (simp add: train_test_split_def slice_to_def slice_from_def slice_bound_def)
  then have "fst (train_test_split sales_3 0) = []" by simp
  from model_evaluation_script_empty_train [OF this, of constant_engine] s
  show ?thesis by (simp add: constant_engine_fits)
qed

section \<open>Properties of the model store\<close>

lemma get_model_info_garbled:
  "metadata_file w = Some Garbled \<Longrightarrow> get_model_info env w = Inl JSONDecodeError"
  by (simp add: get_model_info_def Let_def)

text \<open>
  Claim C9, as the code has it.  Whenever the metadata file is absent or holds readable
  JSON, \<^verbatim>\<open>get_model_info\<close> returns: it reports whether each file exists and both paths;
  the size and the modification time exactly when the model file exists; and the stored
  metadata exactly when the metadata file exists, whether or not the model file does.
\<close>

theorem get_model_info_reports_files:
  assumes "metadata_file w \<noteq> Some Garbled"
  shows "\<exists>i. get_model_info env w = Inr i \<and>
           model_exists i = (model_file w \<noteq> None) \<and>
           model_path i = SARIMA_MODEL_FILE env \<and>
           metadata_exists i = (metadata_file w \<noteq> None) \<and>
           metadata_path i = MODEL_METADATA_FILE env \<and>
           model_size_mb i = map_option (\<lambda>f. real (st_size f) / (1024 * 1024)) (model_file w) \<and>
           model_modified i = map_option (\<lambda>f. fromtimestamp_isoformat env (st_mtime f)) (model_file w) \<and>
           metadata i = (case metadata_file w of Some (Holds md) \<Rightarrow> Some md | _ \<Rightarrow> None)"
proof (cases "metadata_file w")
  case None
  then show ?thesis
    by (cases "model_file w") (simp_all add: get_model_info_def Let_def)
next
  case (Some c)
  with assms obtain md where "c = Holds md" by (cases c) auto
  with Some show ?thesis
    by (cases "model_file w") (simp_all add: get_model_info_def Let_def)
qed

theorem get_model_info_reports_files_witness:
  "\<exists>i. get_model_info test_env fresh_world = Inr i \<and> \<not> model_exists i \<and> metadata i = None \<and>
        model_size_mb i = None"
proof -
  have "metadata_file fresh_world \<noteq> Some Garbled" by (simp add: fresh_world_def)
  from get_model_info_reports_files [OF this, of test_env]
  show ?thesis by (auto simp: fresh_world_def)
qed

text \<open>
  Claim C9 as stated fails: with the model file absent and the metadata file present, the
  result has \<^verbatim>\<open>model_exists\<close> false and yet carries the metadata.
\<close>

theorem get_model_info_metadata_without_model:
  "get_model_info test_env orphan_metadata_world =
     Inr \<lparr>model_exists = False,
          model_path = ''/srv/app/models/sarima_model.pkl'',
          metadata_exists = True,
          metadata_path = ''/srv/app/models/model_metadata.json'',
          model_size_mb = None, model_modified = None,
          metadata = Some old_metadata\<rparr>"
  by (simp add: get_model_info_def orphan_metadata_world_def fresh_world_def test_env_def
      SARIMA_MODEL_FILE_def MODEL_METADATA_FILE_def)


lemma map_of_stamped:
  "map_of (stamped env md) ''saved_at'' = Some (JStr (now_isoformat env)) \<and>
   map_of (stamped env md) ''model_file'' = Some (JStr (SARIMA_MODEL_FILE env)) \<and>
   (\<forall>k. k \<noteq> ''saved_at'' \<and> k \<noteq> ''model_file'' \<longrightarrow> map_of (stamped env md) k = map_of md k)"
  by (simp add: stamped_def update_conv')

lemma save_model_try_cases:
  "save_model_try env model md w =
     (if dump_raises env then
        (Inl OSError,
         case failed_dump_leaves env of
           None \<Rightarrow> w
         | Some n \<Rightarrow> w\<lparr>model_file := Some (PklFile Garbled n (clock env))\<rparr>)
      else if \<not> truthy md then
        (Inr (), log_success ''Model saved''
           (w\<lparr>model_file := Some (PklFile (Holds model) (pickle_size env model) (clock env))\<rparr>))
      else if open_raises env then
        (Inl OSError, log_success ''Model saved''
           (w\<lparr>model_file := Some (PklFile (Holds model) (pickle_size env model) (clock env))\<rparr>))
      else if \<not> list_all (\<lambda>(k, v). serializable v) (stamped env (the md)) then
        (Inl TypeError, (log_success ''Model saved''
           (w\<lparr>model_file := Some (PklFile (Holds model) (pickle_size env model) (clock env))\<rparr>))
           \<lparr>metadata_file := Some Garbled\<rparr>)
      else
        (Inr (), log_success ''Metadata saved''
           ((log_success ''Model saved''
              (w\<lparr>model_file := Some (PklFile (Holds model) (pickle_size env model) (clock env))\<rparr>))
              \<lparr>metadata_file := Some (Holds (stamped env (the md)))\<rparr>)))"
  by (simp add: save_model_try_def Let_def)

lemma log_keeps_files:
  "model_file (log_info msg w) = model_file w"
  "metadata_file (log_info msg w) = metadata_file w"
  "cleaned_sales_file (log_info msg w) = cleaned_sales_file w"
  "model_file (log_success msg w) = model_file w"
  "metadata_file (log_success msg w) = metadata_file w"
  "cleaned_sales_file (log_success msg w) = cleaned_sales_file w"
  "model_file (log_error msg w) = model_file w"
  "metadata_file (log_error msg w) = metadata_file w"
  "cleaned_sales_file (log_error msg w) = cleaned_sales_file w"
  by (simp_all add: log_info_def log_success_def log_error_def)

text \<open>
  Claim C10.  \<^verbatim>\<open>save_model\<close> always returns a truth value.  It returns \<^verbatim>\<open>True\<close> exactly when
  no step of its \<^verbatim>\<open>try\<close> block raises, and then the model file holds the model and, for
  a dictionary that is neither \<^verbatim>\<open>None\<close> nor empty, the metadata file holds the dictionary
  with \<^verbatim>\<open>saved_at\<close> set to the current time and \<^verbatim>\<open>model_file\<close> set to the model path.  It
  returns \<^verbatim>\<open>False\<close> exactly when a step fails: the dump, opening the metadata file, or
  encoding the dictionary.
\<close>

theorem save_model_never_raises:
  "(fst (save_model env model md w) \<longleftrightarrow> (\<exists>w'. save_model_try env model md w = (Inr (), w'))) \<and>
   (\<not> fst (save_model env model md w) \<longleftrightarrow>
      dump_raises env \<or>
      (truthy md \<and> (open_raises env \<or> \<not> list_all (\<lambda>(k, v). serializable v) (stamped env (the md))))) \<and>
   (fst (save_model env model md w) \<longrightarrow>
      model_file (snd (save_model env model md w)) =
        Some (PklFile (Holds model) (pickle_size env model) (clock env)) \<and>
      (truthy md \<longrightarrow>
         metadata_file (snd (save_model env model md w)) = Some (Holds (stamped env (the md))) \<and>
         map_of (stamped env (the md)) ''saved_at'' = Some (JStr (now_isoformat env)) \<and>
         map_of (stamped env (the md)) ''model_file'' = Some (JStr (SARIMA_MODEL_FILE env))) \<and>
      (\<not> truthy md \<longrightarrow>
         metadata_file (snd (save_model env model md w)) = metadata_file w))"
proof -
  note c = save_model_try_cases [of env model md w]
  have a: "fst (save_model env model md w) \<longleftrightarrow> (\<exists>w'. save_model_try env model md w = (Inr (), w'))"
    by (cases "save_model_try env model md w"; cases "fst (save_model_try env model md w)")
       (auto simp: save_model_def)
  have b: "\<not> fst (save_model env model md w) \<longleftrightarrow>
      dump_raises env \<or>
      (truthy md \<and> (open_raises env \<or> \<not> list_all (\<lambda>(k, v). serializable v) (stamped env (the md))))"
    unfolding save_model_def c by (simp add: log_keeps_files)
  have d: "fst (save_model env model md w) \<longrightarrow>
      model_file (snd (save_model env model md w)) =
        Some (PklFile (Holds model) (pickle_size env model) (clock env)) \<and>
      (truthy md \<longrightarrow>
         metadata_file (snd (save_model env model md w)) = Some (Holds (stamped env (the md)))) \<and>
      (\<not> truthy md \<longrightarrow>
         metadata_file (snd (save_model env model md w)) = metadata_file w)"
    unfolding save_model_def c by (simp add: log_keeps_files)
  from a b d map_of_stamped [of env "the md"] show ?thesis by blast
qed

theorem save_model_never_raises_witness:
  "fst (save_model test_env model_13 (Some old_metadata) fresh_world) \<and>
   metadata_file (snd (save_model test_env model_13 (Some old_metadata) fresh_world)) =
     Some (Holds (old_metadata @
       [(''saved_at'', JStr ''2015-02-01T09:00:00''),
        (''model_file'', JStr ''/srv/app/models/sarima_model.pkl'')])) \<and>
   fst (save_model test_env model_13 None fresh_world) \<and>
   \<not> fst (save_model test_env model_13 (Some [(''note'', JObject)]) fresh_world)"
proof -
  have t: "truthy (Some old_metadata)" "\<not> truthy None" "truthy (Some [(''note'', JObject)])"
    by (simp_all add: truthy_def old_metadata_def)
  have e: "\<not> dump_raises test_env" "\<not> open_raises test_env"
    by (simp_all add: test_env_def)
  have st: "stamped test_env old_metadata = old_metadata @
       [(''saved_at'', JStr ''2015-02-01T09:00:00''),
        (''model_file'', JStr ''/srv/app/models/sarima_model.pkl'')]"
    by (simp add: stamped_def old_metadata_def test_env_def SARIMA_MODEL_FILE_def)
  have ser: "list_all (\<lambda>(k, v). serializable v) (stamped test_env (the (Some old_metadata)))"
    by (simp add: st) (simp add: old_metadata_def)
  have nser: "\<not> list_all (\<lambda>(k, v). serializable v) (stamped test_env (the (Some [(''note'', JObject)])))"
    by (simp add: stamped_def)
  note a = save_model_never_raises [of test_env model_13 "Some old_metadata" fresh_world]
  note b = save_model_never_raises [of test_env model_13 None fresh_world]
  note c = save_model_never_raises [of test_env model_13 "Some [(''note'', JObject)]" fresh_world]
  from a t e ser have a1: "fst (save_model test_env model_13 (Some old_metadata) fresh_world)"
    by blast
  with a t have "metadata_file (snd (save_model test_env model_13 (Some old_metadata) fresh_world)) =
     Some (Holds (stamped test_env (the (Some old_metadata))))" by blast
  then have a2: "metadata_file (snd (save_model test_env model_13 (Some old_metadata) fresh_world)) =
     Some (Holds (old_metadata @
       [(''saved_at'', JStr ''2015-02-01T09:00:00''),
        (''model_file'', JStr ''/srv/app/models/sarima_model.pkl'')]))"
    by (simp add: st)
  from b t e have b1: "fst (save_model test_env model_13 None fresh_world)" by blast
  from c t nser have c1: "\<not> fst (save_model test_env model_13 (Some [(''note'', JObject)]) fresh_world)"
    by blast
  from a1 a2 b1 c1 show ?thesis by blast
qed

section \<open>Properties of the forecast script\<close>

lemma exit_1_simps:
  "fst (exit_1 msg w) = Inl (SystemExit 1)"
  "model_file (snd (exit_1 msg w)) = model_file w"
  "metadata_file (snd (exit_1 msg w)) = metadata_file w"
  "cleaned_sales_file (snd (exit_1 msg w)) = cleaned_sales_file w"
  by (simp_all add: exit_1_def log_keeps_files)

lemma load_model_loaded:
  assumes "model_file w = Some f" and "pkl_content f = Holds model"
    and "metadata_file w \<noteq> Some Garbled"
  shows "\<exists>w1. load_model env check w = (Inr model, w1) \<and>
               cleaned_sales_file w1 = cleaned_sales_file w"
proof (cases "metadata_file w")
  case None
  with assms show ?thesis by (simp add: load_model_def Let_def log_keeps_files)
next
  case (Some c)
  with assms(3) obtain md where "c = Holds md" by (cases c) auto
  with Some assms show ?thesis by (simp add: load_model_def Let_def log_keeps_files)
qed

lemma get_model_info_exists:
  assumes "model_file w = Some f" and "metadata_file w \<noteq> Some Garbled"
  shows "\<exists>i. get_model_info env w = Inr i \<and> model_exists i"
proof (cases "metadata_file w")
  case None
  with assms show ?thesis by (simp add: get_model_info_def Let_def)
next
  case (Some c)
  with assms(2) obtain md where "c = Holds md" by (cases c) auto
  with Some assms show ?thesis by (simp add: get_model_info_def Let_def)
qed

lemma forecast_main_loaded:
  assumes "model_file w = Some f" and "pkl_content f = Holds model"
    and "metadata_file w \<noteq> Some Garbled" and "cleaned_sales_file w = Some sales"
  shows "fst (forecast_main env eng w) = Inr (forecast_next eng model None)"
proof -
  obtain i where i: "get_model_info env w = Inr i" "model_exists i"
    using get_model_info_exists [OF assms(1,3)] by blast
  obtain w1 where w1: "load_model env True w = (Inr model, w1)"
    "cleaned_sales_file w1 = cleaned_sales_file w"
    using load_model_loaded [OF assms(1,2,3)] by blast
  have o: "obtain_model env eng i w = (Inr model, w1)"
    using i w1 by (simp add: obtain_model_def)
  have l: "forecast_load_monthly_sales w1 = (Inr sales, log_success ''Loaded sales data'' w1)"
    using w1 assms(4) by (simp add: forecast_load_monthly_sales_def)
  show ?thesis
    by (simp add: forecast_main_def i o l Let_def)
qed

text \<open>
  Claim C4, as the code has it.  Whenever the model file loads, the metadata file is absent
  or readable and the sales data exist, the forecast run returns the forecast of the
  loaded model, whatever the metadata says: the metadata is only logged.
\<close>

theorem forecast_does_not_compare_metadata:
  assumes "model_file w = Some f" and "pkl_content f = Holds model"
    and "metadata_file w \<noteq> Some Garbled" and "cleaned_sales_file w = Some sales"
  shows "fst (forecast_main env eng w) = Inr (forecast_next eng model None)"
  using assms by (rule forecast_main_loaded)

lemma stale_world_files:
  "model_file stale_world = Some (PklFile (Holds model_13) 2097152 1422777600)"
  "metadata_file stale_world = Some (Holds old_metadata)"
  "cleaned_sales_file stale_world = Some sales_13"
  by (simp_all add: stale_world_def)

lemma forecast_constant_engine_13:
  "forecast_next constant_engine model_13 None =
     (replicate 12 (''later'', 1), replicate 12 (0, 2))"
proof -
  have n: "length (endog model_13) = 13" by (simp add: model_13_def sales_13_def)
  have r: "replicate 12 x = [x, x, x, x, x, x, x, x, x, x, x, x]" for x :: 'b
    by (simp add: eval_nat_numeral)
  show ?thesis
    by (simp add: forecast_next_def Let_def n FORECAST_HORIZON_def constant_engine_def r)
qed

theorem forecast_does_not_compare_metadata_witness:
  "fst (forecast_main test_env constant_engine stale_world) =
     Inr (replicate 12 (''later'', 1), replicate 12 (0, 2))"
proof -
  have g: "metadata_file stale_world \<noteq> Some Garbled" by (simp add: stale_world_files)
  have c: "pkl_content (PklFile (Holds model_13) 2097152 1422777600) = Holds model_13" by simp
  from forecast_does_not_compare_metadata [OF stale_world_files(1) c g stale_world_files(3)]
  show ?thesis by (simp add: forecast_constant_engine_13)
qed

text \<open>
  Claim C4 as stated fails: the model is bound to a series that ends in 2015-01, the
  metadata on disk give a date range that ends in 2014-12, and the run returns the
  forecast.
\<close>

theorem stale_model_is_forecast:
  "bound_end_date model_13 = Some ''2015-01'' \<and>
   metadata_end_date old_metadata = Some ''2014-12'' \<and>
   spec_stale model_13 old_metadata \<and>
   fst (forecast_main test_env constant_engine stale_world) =
     Inr (forecast_next constant_engine model_13 None)"
proof -
  have b: "bound_end_date model_13 = Some ''2015-01''"
    by (simp add: bound_end_date_def model_13_def sales_13_def)
  have m: "metadata_end_date old_metadata = Some ''2014-12''"
    by (simp add: metadata_end_date_def old_metadata_def)
  have s: "spec_stale model_13 old_metadata"
    by (simp add: spec_stale_def b m)
  have g: "metadata_file stale_world \<noteq> Some Garbled" by (simp add: stale_world_files)
  have c: "pkl_content (PklFile (Holds model_13) 2097152 1422777600) = Holds model_13" by simp
  from forecast_main_loaded [OF stale_world_files(1) c g stale_world_files(3)] b m s
  show ?thesis by simp
qed

section \<open>Properties of the training script\<close>

lemma train_load_short:
  assumes "cleaned_sales_file w = Some s" and "length s < 24"
  shows "train_load_try w = Inl insufficient_data"
    and "train_load_monthly_sales w =
           (Inl (SystemExit 1), log_error ''Error loading data: Insufficient data'' w)"
  using assms
  by (simp_all add: train_load_try_def train_load_monthly_sales_def insufficient_data_def exit_1_def)

lemma train_load_enough:
  assumes "cleaned_sales_file w = Some s" and "24 \<le> length s"
  shows "train_load_monthly_sales w = (Inr s, log_success ''Loaded sales data'' w)"
  using assms by (simp add: train_load_try_def train_load_monthly_sales_def)

lemma train_sarima_converges:
  assumes "estimate eng s SARIMA_ORDER SARIMA_SEASONAL_ORDER = Some (a, b)"
  shows "train_sarima eng s w =
     (Inr \<lparr>endog = s, model_order = SARIMA_ORDER, model_seasonal_order = SARIMA_SEASONAL_ORDER,
           aic = a, bic = b\<rparr>,
      log_success ''Model trained successfully'' (log_info ''Training SARIMA'' w))"
  using assms by (simp add: train_sarima_def SARIMAX_fit_def Let_def)

text \<open>
  Claim C2.  In a training run, a monthly series of fewer than 24 months raises the
  insufficient-data error in \<^verbatim>\<open>load_monthly_sales\<close>; the run logs it and ends with exit
  status 1, before any fit.  With at least 24 months (in particular exactly 24) and an
  order for which the fit converges, \<^verbatim>\<open>train_sarima\<close> returns the fitted model and the run
  completes with it.
\<close>

theorem training_needs_24_months:
  "(cleaned_sales_file w = Some s \<and> length s < 24 \<longrightarrow>
      train_load_try w = Inl insufficient_data \<and>
      train_main env eng w =
        (Inl (SystemExit 1), log_error ''Error loading data: Insufficient data'' w)) \<and>
   (cleaned_sales_file w = Some s \<and> 24 \<le> length s \<and>
    estimate eng s SARIMA_ORDER SARIMA_SEASONAL_ORDER = Some (a, b) \<longrightarrow>
      fst (train_sarima eng s w) =
        Inr \<lparr>endog = s, model_order = SARIMA_ORDER,
             model_seasonal_order = SARIMA_SEASONAL_ORDER, aic = a, bic = b\<rparr> \<and>
      fst (train_main env eng w) =
        Inr \<lparr>endog = s, model_order = SARIMA_ORDER,
             model_seasonal_order = SARIMA_SEASONAL_ORDER, aic = a, bic = b\<rparr>)"
proof (intro conjI impI)
  assume h: "cleaned_sales_file w = Some s \<and> length s < 24"
  then show "train_load_try w = Inl insufficient_data"
    using train_load_short(1) by blast
  from h have "train_load_monthly_sales w =
      (Inl (SystemExit 1), log_error ''Error loading data: Insufficient data'' w)"
    using train_load_short(2) by blast
  then show "train_main env eng w =
      (Inl (SystemExit 1), log_error ''Error loading data: Insufficient data'' w)"
    by (simp add: train_main_def)
next
  assume h: "cleaned_sales_file w = Some s \<and> 24 \<le> length s \<and>
    estimate eng s SARIMA_ORDER SARIMA_SEASONAL_ORDER = Some (a, b)"
  then show "fst (train_sarima eng s w) =
        Inr \<lparr>endog = s, model_order = SARIMA_ORDER,
             model_seasonal_order = SARIMA_SEASONAL_ORDER, aic = a, bic = b\<rparr>"
    by (simp add: train_sarima_converges)
  from h have l: "train_load_monthly_sales w = (Inr s, log_success ''Loaded sales data'' w)"
    using train_load_enough by blast
  from h show "fst (train_main env eng w) =
        Inr \<lparr>endog = s, model_order = SARIMA_ORDER,
             model_seasonal_order = SARIMA_SEASONAL_ORDER, aic = a, bic = b\<rparr>"
    by (simp add: train_main_def l train_sarima_converges)
qed

theorem training_needs_24_months_witness:
  "train_load_try short_history_world = Inl insufficient_data \<and>
   fst (train_main test_env constant_engine short_history_world) = Inl (SystemExit 1) \<and>
   model_file (snd (train_main test_env constant_engine short_history_world)) = None \<and>
   fst (train_main test_env constant_engine two_year_world) =
     Inr \<lparr>endog = sales_24, model_order = SARIMA_ORDER,
          model_seasonal_order = SARIMA_SEASONAL_ORDER, aic = 10, bic = 20\<rparr>"
proof -
  have s13: "cleaned_sales_file short_history_world = Some sales_13 \<and> length sales_13 < 24"
    by (simp add: short_history_world_def sales_13_def)
  have s24: "cleaned_sales_file two_year_world = Some sales_24 \<and> 24 \<le> length sales_24 \<and>
      estimate constant_engine sales_24 SARIMA_ORDER SARIMA_SEASONAL_ORDER = Some (10, 20)"
    by (simp add: two_year_world_def sales_24_def constant_engine_def)
  have m: "model_file (log_error ''Error loading data: Insufficient data'' short_history_world) = None"
    by (simp add: log_error_def short_history_world_def fresh_world_def)
  from training_needs_24_months [where w = short_history_world and s = sales_13 and env = test_env
      and eng = constant_engine] s13
  have a: "train_load_try short_history_world = Inl insufficient_data \<and>
      train_main test_env constant_engine short_history_world =
        (Inl (SystemExit 1), log_error ''Error loading data: Insufficient data'' short_history_world)"
    by blast
  from training_needs_24_months [where w = two_year_world and s = sales_24 and env = test_env
      and eng = constant_engine and a = 10 and b = 20] s24
  have b: "fst (train_main test_env constant_engine two_year_world) =
     Inr \<lparr>endog = sales_24, model_order = SARIMA_ORDER,
          model_seasonal_order = SARIMA_SEASONAL_ORDER, aic = 10, bic = 20\<rparr>"
    by blast
  from a b m show ?thesis by simp
qed

end
